theory Spec2Isabelle
  imports Main "HOL-Library.Word"
begin

section \<open>Strings\<close>

text \<open>
  Go strings are modelled as \<^typ>\<open>string\<close> (lists of 8-bit characters).  The functions of
  package \<^verbatim>\<open>strings\<close> the router uses are written out on the ASCII range: white space is
  tab, line feed, vertical tab, form feed, carriage return and blank; letters are A to Z.
\<close>

definition isSpace :: "char \<Rightarrow> bool" where
  "isSpace c = (c \<in> set [CHR 0x09, CHR 0x0A, CHR 0x0B, CHR 0x0C, CHR 0x0D, CHR '' ''])"

definition TrimSpace :: "string \<Rightarrow> string" where
  "TrimSpace s = rev (dropWhile isSpace (rev (dropWhile isSpace s)))"

definition lowerChar :: "char \<Rightarrow> char" where
  "lowerChar c =
     (case map_of (zip ''ABCDEFGHIJKLMNOPQRSTUVWXYZ'' ''abcdefghijklmnopqrstuvwxyz'') c of
        Some d \<Rightarrow> d
      | None \<Rightarrow> c)"

definition ToLower :: "string \<Rightarrow> string" where
  "ToLower s = map lowerChar s"

fun Join :: "string list \<Rightarrow> string \<Rightarrow> string" where
  "Join [] sep = []"
| "Join [x] sep = x"
| "Join (x # y # ys) sep = x @ sep @ Join (y # ys) sep"

fun HasPrefix :: "string \<Rightarrow> string \<Rightarrow> bool" where
  "HasPrefix s [] = True"
| "HasPrefix [] (p # ps) = False"
| "HasPrefix (c # cs) (p # ps) = (c = p \<and> HasPrefix cs ps)"

fun Contains :: "string \<Rightarrow> string \<Rightarrow> bool" where
  "Contains [] sub = (sub = [])"
| "Contains (c # cs) sub = (HasPrefix (c # cs) sub \<or> Contains cs sub)"

text \<open>\<^verbatim>\<open>%q\<close> of package \<^verbatim>\<open>fmt\<close>, on strings that need no escaping.\<close>

definition quote :: "string \<Rightarrow> string" where
  "quote s = [CHR 0x22] @ s @ [CHR 0x22]"

section \<open>Errors\<close>

text \<open>
  An \<^verbatim>\<open>error\<close> value is one of the sentinels the code compares against
  (\<^verbatim>\<open>provider.ErrUnknownModel\<close>, \<^verbatim>\<open>provider.ErrDuplicateModel\<close>,
  \<^verbatim>\<open>provider.ErrUnsupportedOperation\<close>, \<^verbatim>\<open>io.EOF\<close>, \<^verbatim>\<open>io.ErrUnexpectedEOF\<close>), a
  plain error made by \<^verbatim>\<open>errors.New\<close> or by \<^verbatim>\<open>fmt.Errorf\<close> without \<^verbatim>\<open>%w\<close>, or an error made by
  \<^verbatim>\<open>fmt.Errorf\<close> with one \<^verbatim>\<open>%w\<close>: its rendered message and the error it wraps.
\<close>

datatype error =
    ErrUnknownModel
  | ErrDuplicateModel
  | ErrUnsupportedOperation
  | IoEOF
  | IoErrUnexpectedEOF
  | New string
  | Wrapf string error

fun Error :: "error \<Rightarrow> string" where
  "Error ErrUnknownModel = ''unknown model''"
| "Error ErrDuplicateModel = ''model already registered''"
| "Error ErrUnsupportedOperation = ''unsupported provider operation''"
| "Error IoEOF = ''EOF''"
| "Error IoErrUnexpectedEOF = ''unexpected EOF''"
| "Error (New m) = m"
| "Error (Wrapf m e) = m"

text \<open>\<^verbatim>\<open>errors.Is\<close>: the target is found along the chain of wrapped errors.\<close>

fun Is :: "error \<Rightarrow> error \<Rightarrow> bool" where
  "Is (Wrapf m e) target = (Wrapf m e = target \<or> Is e target)"
| "Is e target = (e = target)"

section \<open>Package models: the canonical schema\<close>

text \<open>
  Go's \<^verbatim>\<open>int\<close> is taken as the 64-bit signed integer of the platforms the router is built
  for: a \<^typ>\<open>64 word\<close>, read with \<^const>\<open>sint\<close>, whose addition wraps.  A \<^verbatim>\<open>float64\<close>
  is opaque.  Fields are prefixed with the initials of their struct, since many structs share
  field names.
\<close>

type_synonym goint = "64 word"

typedecl float64

record Message =
  m_Role :: string
  m_Content :: string
  m_Name :: string

record Usage =
  u_PromptTokens :: goint
  u_CompletionTokens :: goint
  u_TotalTokens :: goint

record Model =
  ID :: string
  Provider :: string
  APIStyle :: string

text \<open>
  A JSON text, as \<^verbatim>\<open>encoding/json\<close> reads it: a \<^verbatim>\<open>json.RawMessage\<close> that holds a complete
  value is the value; an object keeps its members in the order of the text.
\<close>

datatype json =
    JNull
  | JBool bool
  | JNum int
  | JStr string
  | JArr "json list"
  | JObj "(string \<times> json) list"

text \<open>
  A value of the dynamic type \<^verbatim>\<open>any\<close> stored in an options map, by the dynamic types the
  adapters' type switches tell apart.  Nested maps and slices are carried as values.
\<close>

datatype any =
    AInt goint
  | AInt64 goint
  | AFloat64 float64
  | AFloat32 float64
  | ANumber string
  | AString string
  | AStrings "string list"
  | ASlice "any list"
  | AMap "(string \<times> any) list"
  | AFloatMap "(string \<times> float64) list"
  | ARaw json
  | AOther string

type_synonym options = "string \<rightharpoonup> any"

text \<open>
  The request structs hold a Go map, which is a reference.  The record is polymorphic in what
  stands for the map: a reference into a store of maps where sharing matters (the router), or
  the map's contents where the code only reads it (the adapters).
\<close>

record 'o UnifiedChatRequest =
  cr_Model :: string
  cr_Messages :: "Message list"
  cr_Stream :: bool
  cr_Options :: 'o

record UnifiedChatResponse =
  rs_Message :: Message
  rs_Usage :: Usage
  rs_FinishReason :: string
  rs_ID :: string

record 'o UnifiedCompletionRequest =
  pr_Model :: string
  pr_Prompt :: string
  pr_Stream :: bool
  pr_MaxTokens :: goint
  pr_Temperature :: "float64 option"
  pr_Options :: 'o

record UnifiedCompletionResponse =
  ps_Text :: string
  ps_Usage :: Usage
  ps_FinishReason :: string
  ps_ID :: string

section \<open>Package provider: the provider contract and the registry\<close>

text \<open>
  What a provider does with a request is its own business; the router sees a name, a list of
  models, and for each call an outcome: the stores and deletes the provider performs on the
  options map it was handed, in order, and the pair of results it returns (a nil response
  pointer is \<^const>\<open>None\<close>).
\<close>

datatype map_op = Store string any | Delete string

type_synonym 'r outcome = "map_op list \<times> (error + 'r option)"

record Provider =
  Name :: string
  ListModels :: "error + Model list"
  p_Chat :: "options UnifiedChatRequest \<Rightarrow> UnifiedChatResponse outcome"
  p_Completion :: "options UnifiedCompletionRequest \<Rightarrow> UnifiedCompletionResponse outcome"

record modelEntry =
  model :: Model
  provider :: Provider

record Registry =
  models :: "string \<rightharpoonup> modelEntry"
  byName :: "string \<rightharpoonup> Provider"

definition NewRegistry :: Registry where
  "NewRegistry = \<lparr>models = Map.empty, byName = Map.empty\<rparr>"

text \<open>
  The first loop of \<^verbatim>\<open>RegisterProvider\<close>: each model is stored under its id, and the loop
  returns at the first id that is already a key, keeping what it has stored so far.
\<close>

fun registerModels ::
  "Provider \<Rightarrow> Model list \<Rightarrow> (string \<rightharpoonup> modelEntry) \<Rightarrow> error option \<times> (string \<rightharpoonup> modelEntry)"
where
  "registerModels p [] ms = (None, ms)"
| "registerModels p (m # rest) ms =
     (if ms (ID m) \<noteq> None
      then (Some (Wrapf (Error ErrDuplicateModel @ '': '' @ ID m) ErrDuplicateModel), ms)
      else registerModels p rest (ms(ID m \<mapsto> \<lparr>model = m, provider = p\<rparr>)))"

text \<open>
  The second loop ranges over the alias map; Go visits a map's keys in no fixed order, so the
  list is the pairs in the order one run visits them.
\<close>

fun registerAliases ::
  "(string \<times> string) list \<Rightarrow> (string \<rightharpoonup> modelEntry) \<Rightarrow> error option \<times> (string \<rightharpoonup> modelEntry)"
where
  "registerAliases [] ms = (None, ms)"
| "registerAliases ((alias, target) # rest) ms =
     (if ms alias \<noteq> None
      then (Some (New (''alias '' @ quote alias @ '' conflicts with existing model'')), ms)
      else (case ms target of
              None \<Rightarrow>
                (Some (New (''alias '' @ quote alias @ '' references unknown model '' @ quote target)), ms)
            | Some targetEntry \<Rightarrow> registerAliases rest (ms(alias \<mapsto> targetEntry))))"

definition RegisterProvider ::
  "Provider option \<Rightarrow> (string \<times> string) list \<Rightarrow> Registry \<Rightarrow> error option \<times> Registry"
where
  "RegisterProvider po aliases r =
     (case po of
        None \<Rightarrow> (Some (New ''provider must not be nil''), r)
      | Some p \<Rightarrow>
          (case ListModels p of
             Inl err \<Rightarrow>
               (Some (Wrapf (''list models for provider '' @ quote (Name p) @ '': '' @ Error err) err), r)
           | Inr modelsList \<Rightarrow>
               if byName r (Name p) \<noteq> None
               then (Some (New (''provider '' @ quote (Name p) @ '' already registered'')), r)
               else
                 let r1 = r\<lparr>byName := (byName r)(Name p \<mapsto> p)\<rparr>;
                     (e1, ms1) = registerModels p modelsList (models r1)
                 in (case e1 of
                       Some err \<Rightarrow> (Some err, r1\<lparr>models := ms1\<rparr>)
                     | None \<Rightarrow>
                         let (e2, ms2) = registerAliases aliases ms1
                         in (e2, r1\<lparr>models := ms2\<rparr>))))"

definition LookupModel :: "Registry \<Rightarrow> string \<Rightarrow> error + (Model \<times> Provider)" where
  "LookupModel r modelID =
     (case models r modelID of
        None \<Rightarrow> Inl (Wrapf (Error ErrUnknownModel @ '': '' @ modelID) ErrUnknownModel)
      | Some entry \<Rightarrow> Inr (model entry, provider entry))"

section \<open>Package claude: the Claude adapter\<close>

record contentBlock =
  cb_Type :: string
  cb_Text :: string

record message =
  mg_Role :: string
  mg_Content :: "contentBlock list"

record messagePayload =
  mp_Model :: string
  mp_Messages :: "message list"
  mp_System :: string
  mp_MaxTokens :: goint
  mp_Temperature :: "float64 option"
  mp_TopP :: "float64 option"
  mp_StopSequences :: "string list"
  mp_Metadata :: "(string \<times> any) list option"
  mp_Stream :: bool

text \<open>
  The numeric conversions of the Go runtime and of \<^verbatim>\<open>json.Number\<close> that the extractors
  call; they are parameters of the model.
\<close>

record numlib =
  intOfFloat :: "float64 \<Rightarrow> goint"
  NumberInt64 :: "string \<Rightarrow> goint option"
  NumberFloat64 :: "string \<Rightarrow> float64 option"

text \<open>
  The extractors return a value and an \<^verbatim>\<open>ok\<close> flag; \<^const>\<open>None\<close> is \<^verbatim>\<open>ok == false\<close>.  A nil
  map and an empty map read alike.
\<close>

definition extractFloat :: "numlib \<Rightarrow> options \<Rightarrow> string \<Rightarrow> float64 option" where
  "extractFloat lib opts key =
     (case opts key of
        Some (AFloat64 v) \<Rightarrow> Some v
      | Some (AFloat32 v) \<Rightarrow> Some v
      | Some (ANumber v) \<Rightarrow> NumberFloat64 lib v
      | _ \<Rightarrow> None)"

definition extractInt :: "numlib \<Rightarrow> options \<Rightarrow> string \<Rightarrow> goint option" where
  "extractInt lib opts key =
     (case opts key of
        Some (AInt v) \<Rightarrow> Some v
      | Some (AInt64 v) \<Rightarrow> Some v
      | Some (AFloat64 v) \<Rightarrow> Some (intOfFloat lib v)
      | Some (ANumber v) \<Rightarrow> NumberInt64 lib v
      | _ \<Rightarrow> None)"

fun asStrings :: "any list \<Rightarrow> string list option" where
  "asStrings [] = Some []"
| "asStrings (AString str # rest) = map_option ((#) str) (asStrings rest)"
| "asStrings (item # rest) = None"

definition extractStringSlice :: "options \<Rightarrow> string \<Rightarrow> string list option" where
  "extractStringSlice opts key =
     (case opts key of
        Some (AStrings v) \<Rightarrow> Some v
      | Some (ASlice v) \<Rightarrow> asStrings v
      | _ \<Rightarrow> None)"

definition extractMap :: "options \<Rightarrow> string \<Rightarrow> (string \<times> any) list option" where
  "extractMap opts key =
     (case opts key of
        Some (AMap m) \<Rightarrow> Some m
      | _ \<Rightarrow> None)"

text \<open>
  The role a message is shaped by: \<^verbatim>\<open>strings.ToLower(strings.TrimSpace(msg.Role))\<close>.
\<close>

definition shapedRole :: "Message \<Rightarrow> string" where
  "shapedRole msg = ToLower (TrimSpace (m_Role msg))"

text \<open>
  The loop of \<^verbatim>\<open>buildMessagePayload\<close> over the request's messages, with the two slices it
  appends to.
\<close>

fun shapeMessages ::
  "Message list \<Rightarrow> message list \<Rightarrow> string list \<Rightarrow> error + (message list \<times> string list)"
where
  "shapeMessages [] messages systemParts = Inr (messages, systemParts)"
| "shapeMessages (msg # rest) messages systemParts =
     (if shapedRole msg = ''system'' then
        shapeMessages rest messages
          (if TrimSpace (m_Content msg) \<noteq> '''' then systemParts @ [m_Content msg] else systemParts)
      else if shapedRole msg = ''user'' \<or> shapedRole msg = ''assistant'' then
        (if TrimSpace (m_Content msg) = '''' then Inl (New ''claude messages must not be empty'')
         else shapeMessages rest
                (messages @ [\<lparr>mg_Role = shapedRole msg,
                               mg_Content = [\<lparr>cb_Type = ''text'', cb_Text = TrimSpace (m_Content msg)\<rparr>]\<rparr>])
                systemParts)
      else Inl (New (''claude provider does not support role '' @ quote (m_Role msg))))"

definition buildMessagePayload :: "numlib \<Rightarrow> options UnifiedChatRequest \<Rightarrow> error + messagePayload" where
  "buildMessagePayload lib req =
     (case shapeMessages (cr_Messages req) [] [] of
        Inl err \<Rightarrow> Inl err
      | Inr (messages, systemParts) \<Rightarrow>
          (case messages of
             [] \<Rightarrow> Inl (New ''claude request requires at least one user message'')
           | first # others \<Rightarrow>
               if mg_Role first \<noteq> ''user''
               then Inl (New ''claude conversation must start with a user message'')
               else
                 (case extractInt lib (cr_Options req) ''max_tokens'' of
                    None \<Rightarrow> Inl (New ''claude requests require a positive max_tokens value'')
                  | Some maxTokens \<Rightarrow>
                      if sint maxTokens \<le> 0
                      then Inl (New ''claude requests require a positive max_tokens value'')
                      else Inr
                        \<lparr>mp_Model = cr_Model req,
                         mp_Messages = messages,
                         mp_System = (if systemParts \<noteq> [] then Join systemParts [CHR 0x0A, CHR 0x0A] else ''''),
                         mp_MaxTokens = maxTokens,
                         mp_Temperature = extractFloat lib (cr_Options req) ''temperature'',
                         mp_TopP = extractFloat lib (cr_Options req) ''top_p'',
                         mp_StopSequences =
                           (case extractStringSlice (cr_Options req) ''stop'' of Some stops \<Rightarrow> stops | None \<Rightarrow> []),
                         mp_Metadata = extractMap (cr_Options req) ''metadata'',
                         mp_Stream = cr_Stream req\<rparr>)))"

record usageBlock =
  ub_InputTokens :: goint
  ub_OutputTokens :: goint

record messageResponse =
  mr_ID :: string
  mr_Role :: string
  mr_Content :: "contentBlock list"
  mr_Usage :: usageBlock
  mr_StopReason :: string

text \<open>The loop of \<^verbatim>\<open>toUnified\<close> over the content blocks, writing into the string builder.\<close>

fun writeBlocks :: "contentBlock list \<Rightarrow> string \<Rightarrow> error + string" where
  "writeBlocks [] text = Inr text"
| "writeBlocks (block # rest) text =
     (if cb_Type block \<noteq> ''text''
      then Inl (New (''claude returned unsupported content block type '' @ quote (cb_Type block)))
      else writeBlocks rest (text @ cb_Text block))"

definition toUnified :: "messageResponse \<Rightarrow> error + UnifiedChatResponse" where
  "toUnified r =
     (if mr_Content r = [] then Inl (New ''claude response missing content blocks'')
      else
        (case writeBlocks (mr_Content r) '''' of
           Inl err \<Rightarrow> Inl err
         | Inr text \<Rightarrow>
             Inr \<lparr>rs_Message =
                    \<lparr>m_Role = (if mr_Role r = '''' then ''assistant'' else mr_Role r),
                     m_Content = text,
                     m_Name = ''''\<rparr>,
                  rs_Usage =
                    \<lparr>u_PromptTokens = ub_InputTokens (mr_Usage r),
                     u_CompletionTokens = ub_OutputTokens (mr_Usage r),
                     u_TotalTokens = ub_InputTokens (mr_Usage r) + ub_OutputTokens (mr_Usage r)\<rparr>,
                  rs_FinishReason = mr_StopReason r,
                  rs_ID = mr_ID r\<rparr>))"






section \<open>What \<^verbatim>\<open>json.Unmarshal\<close> does with the targets the translators use\<close>

text \<open>
  \<^const>\<open>None\<close> is a returned error.  A JSON \<^verbatim>\<open>null\<close> leaves the target as it is, which for
  the fresh variables of the code is the zero value.  Into a struct, a member is stored in the
  field whose name it matches without regard to case; members that match no field are skipped,
  and a member of the wrong JSON type is an error.
\<close>

fun unmarshalString :: "json \<Rightarrow> string option" where
  "unmarshalString (JStr s) = Some s"
| "unmarshalString JNull = Some ''''"
| "unmarshalString other = None"

fun unmarshalStrings :: "json \<Rightarrow> string list option" where
  "unmarshalStrings (JArr items) = those (map unmarshalString items)"
| "unmarshalStrings JNull = Some []"
| "unmarshalStrings other = None"

record claudeSystemBlock =
  sb_Type :: string
  sb_Text :: string

fun storeMembers :: "(string \<times> json) list \<Rightarrow> claudeSystemBlock \<Rightarrow> claudeSystemBlock option" where
  "storeMembers [] block = Some block"
| "storeMembers ((key, v) # rest) block =
     (if ToLower key = ''type'' then
        (case v of
           JStr s \<Rightarrow> storeMembers rest (block\<lparr>sb_Type := s\<rparr>)
         | JNull \<Rightarrow> storeMembers rest block
         | _ \<Rightarrow> None)
      else if ToLower key = ''text'' then
        (case v of
           JStr s \<Rightarrow> storeMembers rest (block\<lparr>sb_Text := s\<rparr>)
         | JNull \<Rightarrow> storeMembers rest block
         | _ \<Rightarrow> None)
      else storeMembers rest block)"

fun unmarshalBlock :: "json \<Rightarrow> claudeSystemBlock option" where
  "unmarshalBlock (JObj members) = storeMembers members \<lparr>sb_Type = '''', sb_Text = ''''\<rparr>"
| "unmarshalBlock JNull = Some \<lparr>sb_Type = '''', sb_Text = ''''\<rparr>"
| "unmarshalBlock other = None"

fun unmarshalBlocks :: "json \<Rightarrow> claudeSystemBlock list option" where
  "unmarshalBlocks (JArr items) = those (map unmarshalBlock items)"
| "unmarshalBlocks JNull = Some []"
| "unmarshalBlocks other = None"

text \<open>\<^verbatim>\<open>%d\<close> of a slice index.\<close>

fun itoa :: "nat \<Rightarrow> string" where
  "itoa n = (if n < 10 then [''0123456789'' ! n] else itoa (n div 10) @ [''0123456789'' ! (n mod 10)])"

section \<open>Package translator: the OpenAI dialect\<close>

record ChatMessage =
  km_Role :: string
  km_Content :: string
  km_Name :: string

text \<open>
  The local struct \<^verbatim>\<open>alias\<close> of \<^verbatim>\<open>ChatCompletionRequest.UnmarshalJSON\<close>, as the library has
  filled it.  A \<^verbatim>\<open>json.RawMessage\<close> field is \<^const>\<open>None\<close> when the member is absent (length 0);
  each message has been through \<^verbatim>\<open>ChatMessage.UnmarshalJSON\<close>.
\<close>

record chatAlias =
  al_Model :: string
  al_Messages :: "ChatMessage list"
  al_Stream :: bool
  al_MaxTokens :: "goint option"
  al_Temperature :: "float64 option"
  al_TopP :: "float64 option"
  al_FrequencyPenalty :: "float64 option"
  al_PresencePenalty :: "float64 option"
  al_Stop :: "json option"
  al_ResponseFormat :: "(string \<times> any) list option"
  al_Tools :: "json option"
  al_ToolChoice :: "json option"
  al_LogitBias :: "(string \<times> float64) list option"
  al_Metadata :: "(string \<times> any) list option"
  al_User :: string
  al_Seed :: "json option"

record ChatCompletionRequest =
  cc_Model :: string
  cc_Messages :: "ChatMessage list"
  cc_Stream :: bool
  cc_MaxTokens :: "goint option"
  cc_Temperature :: "float64 option"
  cc_TopP :: "float64 option"
  cc_FrequencyPenalty :: "float64 option"
  cc_PresencePenalty :: "float64 option"
  cc_Stop :: "string list"
  cc_ResponseFormat :: "(string \<times> any) list option"
  cc_ToolsRaw :: "json option"
  cc_ToolChoiceRaw :: "json option"
  cc_LogitBias :: "(string \<times> float64) list option"
  cc_Metadata :: "(string \<times> any) list option"
  cc_User :: string
  cc_Options :: options

definition errEmptyModel :: error where "errEmptyModel = New ''model must be provided''"
definition errEmptyMessages :: error where "errEmptyMessages = New ''at least one message is required''"
definition errUnsupportedStop :: error where "errUnsupportedStop = New ''unsupported stop value''"
definition errInvalidRole :: error where "errInvalidRole = New ''invalid role''"
definition errInvalidContent :: error where "errInvalidContent = New ''invalid message content''"

definition allowedRoles :: "string set" where
  "allowedRoles = {''system'', ''user'', ''assistant'', ''tool''}"

text \<open>The loop of \<^verbatim>\<open>parseStop\<close> over the array form.\<close>

fun trimStops :: "string list \<Rightarrow> string list \<Rightarrow> error + string list" where
  "trimStops [] out = Inr out"
| "trimStops (item # rest) out =
     (if TrimSpace item = '''' then Inl errUnsupportedStop
      else trimStops rest (out @ [TrimSpace item]))"

definition parseStop :: "json option \<Rightarrow> error + string list" where
  "parseStop raw =
     (case raw of
        None \<Rightarrow> Inr []
      | Some j \<Rightarrow>
          (case unmarshalString j of
             Some single \<Rightarrow>
               if TrimSpace single = '''' then Inl errUnsupportedStop else Inr [single]
           | None \<Rightarrow>
               (case unmarshalStrings j of
                  Some multi \<Rightarrow> trimStops multi []
                | None \<Rightarrow> Inl errUnsupportedStop)))"

definition ChatMessage_validate :: "ChatMessage \<Rightarrow> error option" where
  "ChatMessage_validate m =
     (if km_Role m \<notin> allowedRoles
      then Some (Wrapf (Error errInvalidRole @ '': '' @ km_Role m) errInvalidRole)
      else if TrimSpace (km_Content m) = ''''
      then Some (Wrapf (Error errInvalidContent @ '': message content must not be empty'') errInvalidContent)
      else None)"

fun validateChatMessages :: "nat \<Rightarrow> ChatMessage list \<Rightarrow> error option" where
  "validateChatMessages i [] = None"
| "validateChatMessages i (msg # rest) =
     (case ChatMessage_validate msg of
        Some err \<Rightarrow> Some (Wrapf (''message['' @ itoa i @ '']: '' @ Error err) err)
      | None \<Rightarrow> validateChatMessages (Suc i) rest)"

definition ChatCompletionRequest_validate :: "ChatCompletionRequest \<Rightarrow> error option" where
  "ChatCompletionRequest_validate r =
     (if cc_Model r = '''' then Some errEmptyModel
      else if cc_Messages r = [] then Some errEmptyMessages
      else validateChatMessages 0 (cc_Messages r))"

text \<open>An entry is stored in the options map only when its source field is set.\<close>

fun putIf :: "'a option \<Rightarrow> string \<Rightarrow> ('a \<Rightarrow> any) \<Rightarrow> options \<Rightarrow> options" where
  "putIf None key f opts = opts"
| "putIf (Some v) key f opts = opts(key \<mapsto> f v)"

definition ChatCompletionRequest_UnmarshalJSON ::
  "error + chatAlias \<Rightarrow> error + ChatCompletionRequest"
where
  "ChatCompletionRequest_UnmarshalJSON decoded =
     (case decoded of
        Inl err \<Rightarrow> Inl (Wrapf (''decode chat request: '' @ Error err) err)
      | Inr raw \<Rightarrow>
          (case parseStop (al_Stop raw) of
             Inl err \<Rightarrow> Inl err
           | Inr stopValues \<Rightarrow>
               let r = \<lparr>cc_Model = TrimSpace (al_Model raw),
                        cc_Messages = al_Messages raw,
                        cc_Stream = al_Stream raw,
                        cc_MaxTokens = al_MaxTokens raw,
                        cc_Temperature = al_Temperature raw,
                        cc_TopP = al_TopP raw,
                        cc_FrequencyPenalty = al_FrequencyPenalty raw,
                        cc_PresencePenalty = al_PresencePenalty raw,
                        cc_Stop = stopValues,
                        cc_ResponseFormat = al_ResponseFormat raw,
                        cc_ToolsRaw = al_Tools raw,
                        cc_ToolChoiceRaw = al_ToolChoice raw,
                        cc_LogitBias = al_LogitBias raw,
                        cc_Metadata = al_Metadata raw,
                        cc_User = al_User raw,
                        cc_Options =
                          putIf (if al_User raw \<noteq> '''' then Some (al_User raw) else None) ''user'' AString
                         (putIf (al_Metadata raw) ''metadata'' AMap
                         (putIf (al_LogitBias raw) ''logit_bias'' AFloatMap
                         (putIf (al_ToolChoice raw) ''tool_choice'' ARaw
                         (putIf (al_Tools raw) ''tools'' ARaw
                         (putIf (al_ResponseFormat raw) ''response_format'' AMap
                         (putIf (if stopValues \<noteq> [] then Some stopValues else None) ''stop'' AStrings
                         (putIf (al_PresencePenalty raw) ''presence_penalty'' AFloat64
                         (putIf (al_FrequencyPenalty raw) ''frequency_penalty'' AFloat64
                         (putIf (al_MaxTokens raw) ''max_tokens'' AInt
                         (putIf (al_TopP raw) ''top_p'' AFloat64
                         (putIf (al_Temperature raw) ''temperature'' AFloat64
                          Map.empty)))))))))))\<rparr>
               in (case ChatCompletionRequest_validate r of
                     Some err \<Rightarrow> Inl err
                   | None \<Rightarrow> Inr r)))"

record OpenAIUsage =
  ou_PromptTokens :: goint
  ou_CompletionTokens :: goint
  ou_TotalTokens :: goint

record ChatChoice =
  ch_Index :: goint
  ch_Message :: ChatMessage
  ch_FinishReason :: string
  ch_Logprobs :: "json option"
  ch_Delta :: "ChatMessage option"

text \<open>The pointer \<^verbatim>\<open>*OpenAIUsage\<close> is an option: \<^const>\<open>None\<close> is nil.\<close>

record ChatCompletionResponse =
  co_ID :: string
  co_Object :: string
  co_Created :: goint
  co_Model :: string
  co_Choices :: "ChatChoice list"
  co_Usage :: "OpenAIUsage option"

definition FromUnifiedChat :: "string \<Rightarrow> goint \<Rightarrow> UnifiedChatResponse \<Rightarrow> ChatCompletionResponse" where
  "FromUnifiedChat modelID createdUnix resp =
     \<lparr>co_ID = rs_ID resp,
      co_Object = ''chat.completion'',
      co_Created = createdUnix,
      co_Model = modelID,
      co_Choices =
        [\<lparr>ch_Index = 0,
          ch_Message =
            \<lparr>km_Role = m_Role (rs_Message resp),
             km_Content = m_Content (rs_Message resp),
             km_Name = m_Name (rs_Message resp)\<rparr>,
          ch_FinishReason = rs_FinishReason resp,
          ch_Logprobs = None,
          ch_Delta = None\<rparr>],
      co_Usage =
        (if u_TotalTokens (rs_Usage resp) \<noteq> 0 \<or> u_PromptTokens (rs_Usage resp) \<noteq> 0
            \<or> u_CompletionTokens (rs_Usage resp) \<noteq> 0
         then Some \<lparr>ou_PromptTokens = u_PromptTokens (rs_Usage resp),
                    ou_CompletionTokens = u_CompletionTokens (rs_Usage resp),
                    ou_TotalTokens = u_TotalTokens (rs_Usage resp)\<rparr>
         else None)\<rparr>"


record CompletionRequest =
  pq_Model :: string
  pq_Prompt :: string
  pq_Stream :: bool
  pq_MaxTokens :: "goint option"
  pq_Temperature :: "float64 option"
  pq_TopP :: "float64 option"
  pq_Options :: options



record CompletionChoice =
  pc_Text :: string
  pc_Index :: goint
  pc_FinishReason :: string
  pc_Logprobs :: "json option"

record CompletionResponse =
  po_ID :: string
  po_Object :: string
  po_Created :: goint
  po_Model :: string
  po_Choices :: "CompletionChoice list"
  po_Usage :: "OpenAIUsage option"

definition FromUnifiedCompletion ::
  "string \<Rightarrow> goint \<Rightarrow> UnifiedCompletionResponse \<Rightarrow> CompletionResponse"
where
  "FromUnifiedCompletion modelID createdUnix resp =
     \<lparr>po_ID = ps_ID resp,
      po_Object = ''text_completion'',
      po_Created = createdUnix,
      po_Model = modelID,
      po_Choices =
        [\<lparr>pc_Text = ps_Text resp,
          pc_Index = 0,
          pc_FinishReason = ps_FinishReason resp,
          pc_Logprobs = None\<rparr>],
      po_Usage =
        (if u_TotalTokens (ps_Usage resp) \<noteq> 0 \<or> u_PromptTokens (ps_Usage resp) \<noteq> 0
            \<or> u_CompletionTokens (ps_Usage resp) \<noteq> 0
         then Some \<lparr>ou_PromptTokens = u_PromptTokens (ps_Usage resp),
                    ou_CompletionTokens = u_CompletionTokens (ps_Usage resp),
                    ou_TotalTokens = u_TotalTokens (ps_Usage resp)\<rparr>
         else None)\<rparr>"

text \<open>
  What \<^verbatim>\<open>json.Marshal\<close> makes of the response structs, from their field tags: a member tagged
  \<^verbatim>\<open>omitempty\<close> is left out when the field is the empty string, a nil pointer or a nil
  interface.  \<^verbatim>\<open>ChatMessage\<close> has no tags, so its members carry the Go field names.
\<close>

definition jmember :: "string \<Rightarrow> json \<Rightarrow> (string \<times> json) list" where
  "jmember key v = [(key, v)]"

definition omitempty :: "string \<Rightarrow> 'a option \<Rightarrow> ('a \<Rightarrow> json) \<Rightarrow> (string \<times> json) list" where
  "omitempty key field enc = (case field of None \<Rightarrow> [] | Some v \<Rightarrow> [(key, enc v)])"

definition nonEmpty :: "string \<Rightarrow> string option" where
  "nonEmpty s = (if s = '''' then None else Some s)"

definition jsonInt :: "goint \<Rightarrow> json" where
  "jsonInt v = JNum (sint v)"

definition ChatMessage_json :: "ChatMessage \<Rightarrow> json" where
  "ChatMessage_json m =
     JObj (jmember ''Role'' (JStr (km_Role m)) @ jmember ''Content'' (JStr (km_Content m))
           @ jmember ''Name'' (JStr (km_Name m)))"

definition OpenAIUsage_json :: "OpenAIUsage \<Rightarrow> json" where
  "OpenAIUsage_json u =
     JObj (jmember ''prompt_tokens'' (jsonInt (ou_PromptTokens u))
           @ jmember ''completion_tokens'' (jsonInt (ou_CompletionTokens u))
           @ jmember ''total_tokens'' (jsonInt (ou_TotalTokens u)))"

definition ChatChoice_json :: "ChatChoice \<Rightarrow> json" where
  "ChatChoice_json c =
     JObj (jmember ''index'' (jsonInt (ch_Index c))
           @ jmember ''message'' (ChatMessage_json (ch_Message c))
           @ omitempty ''finish_reason'' (nonEmpty (ch_FinishReason c)) JStr
           @ omitempty ''logprobs'' (ch_Logprobs c) id
           @ omitempty ''delta'' (ch_Delta c) ChatMessage_json)"

definition ChatCompletionResponse_json :: "ChatCompletionResponse \<Rightarrow> json" where
  "ChatCompletionResponse_json r =
     JObj (jmember ''id'' (JStr (co_ID r))
           @ jmember ''object'' (JStr (co_Object r))
           @ jmember ''created'' (jsonInt (co_Created r))
           @ jmember ''model'' (JStr (co_Model r))
           @ jmember ''choices'' (JArr (map ChatChoice_json (co_Choices r)))
           @ omitempty ''usage'' (co_Usage r) OpenAIUsage_json)"

definition CompletionChoice_json :: "CompletionChoice \<Rightarrow> json" where
  "CompletionChoice_json c =
     JObj (jmember ''text'' (JStr (pc_Text c))
           @ jmember ''index'' (jsonInt (pc_Index c))
           @ omitempty ''finish_reason'' (nonEmpty (pc_FinishReason c)) JStr
           @ omitempty ''logprobs'' (pc_Logprobs c) id)"

definition CompletionResponse_json :: "CompletionResponse \<Rightarrow> json" where
  "CompletionResponse_json r =
     JObj (jmember ''id'' (JStr (po_ID r))
           @ jmember ''object'' (JStr (po_Object r))
           @ jmember ''created'' (jsonInt (po_Created r))
           @ jmember ''model'' (JStr (po_Model r))
           @ jmember ''choices'' (JArr (map CompletionChoice_json (po_Choices r)))
           @ omitempty ''usage'' (po_Usage r) OpenAIUsage_json)"

text \<open>The member of a JSON object under a key, if the object has one.\<close>

fun field :: "json \<Rightarrow> string \<Rightarrow> json option" where
  "field (JObj members) key = map_of members key"
| "field other key = None"

section \<open>Package translator: the Claude dialect\<close>

definition errClaudeEmptyModel :: error where "errClaudeEmptyModel = New ''model must be provided''"
definition errClaudeEmptyMessages :: error where "errClaudeEmptyMessages = New ''at least one message is required''"
definition errClaudeInvalidRole :: error where "errClaudeInvalidRole = New ''invalid role''"
definition errClaudeInvalidContent :: error where "errClaudeInvalidContent = New ''invalid message content''"
definition errClaudeInvalidSystem :: error where "errClaudeInvalidSystem = New ''invalid system prompt''"
definition errClaudeUnsupportedStop :: error where "errClaudeUnsupportedStop = New ''unsupported stop sequences''"

record ClaudeMessage =
  cm_Role :: string
  cm_Content :: string
  cm_Name :: string

text \<open>
  The local struct \<^verbatim>\<open>alias\<close> of \<^verbatim>\<open>ClaudeMessageRequest.UnmarshalJSON\<close>, as the library has
  filled it; each message has been through \<^verbatim>\<open>ClaudeMessage.UnmarshalJSON\<close>.
\<close>

record claudeAlias =
  ca_Model :: string
  ca_MaxTokens :: "goint option"
  ca_Messages :: "ClaudeMessage list"
  ca_System :: "json option"
  ca_Stream :: bool
  ca_Temperature :: "float64 option"
  ca_TopP :: "float64 option"
  ca_StopSequences :: "json option"
  ca_Metadata :: "(string \<times> any) list option"

record ClaudeMessageRequest =
  cq_Model :: string
  cq_MaxTokens :: "goint option"
  cq_Messages :: "ClaudeMessage list"
  cq_System :: "string list"
  cq_Stream :: bool
  cq_Temperature :: "float64 option"
  cq_TopP :: "float64 option"
  cq_StopSequences :: "string list"
  cq_Metadata :: "(string \<times> any) list option"
  cq_Options :: options

definition extractSystemBlock :: "claudeSystemBlock \<Rightarrow> error + string" where
  "extractSystemBlock block =
     (if sb_Type block \<noteq> '''' \<and> sb_Type block \<noteq> ''text''
      then Inl (Wrapf (Error errClaudeInvalidSystem @ '': unsupported block type '' @ quote (sb_Type block))
                  errClaudeInvalidSystem)
      else Inr (TrimSpace (sb_Text block)))"

text \<open>The loop of \<^verbatim>\<open>parseClaudeSystem\<close> over a list of strings.\<close>

fun systemStrings :: "string list \<Rightarrow> string list \<Rightarrow> string list" where
  "systemStrings [] out = out"
| "systemStrings (item # rest) out =
     (if TrimSpace item = '''' then systemStrings rest out
      else systemStrings rest (out @ [TrimSpace item]))"

text \<open>The loop of \<^verbatim>\<open>parseClaudeSystem\<close> over a list of blocks.\<close>

fun systemBlocks :: "claudeSystemBlock list \<Rightarrow> string list \<Rightarrow> error + string list" where
  "systemBlocks [] out = Inr out"
| "systemBlocks (block # rest) out =
     (case extractSystemBlock block of
        Inl err \<Rightarrow> Inl err
      | Inr text \<Rightarrow>
          if text = '''' then systemBlocks rest out else systemBlocks rest (out @ [text]))"

text \<open>
  The code tries the four Go targets in turn.  A nil slice and an empty slice are both the
  empty list: the code tells them apart nowhere.
\<close>

definition parseClaudeSystem :: "json option \<Rightarrow> error + string list" where
  "parseClaudeSystem raw =
     (case raw of
        None \<Rightarrow> Inr []
      | Some JNull \<Rightarrow> Inr []
      | Some j \<Rightarrow>
          (case unmarshalString j of
             Some single \<Rightarrow>
               if TrimSpace single = '''' then Inr [] else Inr [TrimSpace single]
           | None \<Rightarrow>
               (case unmarshalStrings j of
                  Some multiple \<Rightarrow> Inr (systemStrings multiple [])
                | None \<Rightarrow>
                    (case (case unmarshalBlock j of
                             Some singleBlock \<Rightarrow>
                               if sb_Type singleBlock \<noteq> '''' then Some singleBlock else None
                           | None \<Rightarrow> None) of
                       Some singleBlock \<Rightarrow>
                         (case extractSystemBlock singleBlock of
                            Inl err \<Rightarrow> Inl err
                          | Inr text \<Rightarrow> if text = '''' then Inr [] else Inr [text])
                     | None \<Rightarrow>
                         (case unmarshalBlocks j of
                            Some blocks \<Rightarrow> systemBlocks blocks []
                          | None \<Rightarrow> Inl errClaudeInvalidSystem)))))"

fun trimClaudeStops :: "string list \<Rightarrow> string list \<Rightarrow> error + string list" where
  "trimClaudeStops [] out = Inr out"
| "trimClaudeStops (stop # rest) out =
     (if TrimSpace stop = '''' then Inl errClaudeUnsupportedStop
      else trimClaudeStops rest (out @ [TrimSpace stop]))"

definition parseClaudeStops :: "json option \<Rightarrow> error + string list" where
  "parseClaudeStops raw =
     (case raw of
        None \<Rightarrow> Inr []
      | Some JNull \<Rightarrow> Inr []
      | Some j \<Rightarrow>
          (case unmarshalStrings j of
             None \<Rightarrow> Inl errClaudeUnsupportedStop
           | Some stops \<Rightarrow> trimClaudeStops stops []))"

definition ClaudeMessage_validate :: "ClaudeMessage \<Rightarrow> error option" where
  "ClaudeMessage_validate m =
     (if cm_Role m \<noteq> ''user'' \<and> cm_Role m \<noteq> ''assistant''
      then Some (Wrapf (Error errClaudeInvalidRole @ '': '' @ cm_Role m) errClaudeInvalidRole)
      else if TrimSpace (cm_Content m) = '''' then Some errClaudeInvalidContent
      else None)"

fun validateClaudeMessages :: "nat \<Rightarrow> ClaudeMessage list \<Rightarrow> error option" where
  "validateClaudeMessages i [] = None"
| "validateClaudeMessages i (msg # rest) =
     (case ClaudeMessage_validate msg of
        Some err \<Rightarrow> Some (Wrapf (''messages['' @ itoa i @ '']: '' @ Error err) err)
      | None \<Rightarrow> validateClaudeMessages (Suc i) rest)"

definition ClaudeMessageRequest_validate :: "ClaudeMessageRequest \<Rightarrow> error option" where
  "ClaudeMessageRequest_validate r =
     (if cq_Model r = '''' then Some errClaudeEmptyModel
      else if cq_Messages r = [] then Some errClaudeEmptyMessages
      else validateClaudeMessages 0 (cq_Messages r))"

definition ClaudeMessageRequest_UnmarshalJSON ::
  "error + claudeAlias \<Rightarrow> error + ClaudeMessageRequest"
where
  "ClaudeMessageRequest_UnmarshalJSON decoded =
     (case decoded of
        Inl err \<Rightarrow> Inl (Wrapf (''decode claude request: '' @ Error err) err)
      | Inr raw \<Rightarrow>
          (case parseClaudeSystem (ca_System raw) of
             Inl err \<Rightarrow> Inl err
           | Inr systemPrompts \<Rightarrow>
               (case parseClaudeStops (ca_StopSequences raw) of
                  Inl err \<Rightarrow> Inl err
                | Inr stopSequences \<Rightarrow>
                    let r = \<lparr>cq_Model = TrimSpace (ca_Model raw),
                             cq_MaxTokens = ca_MaxTokens raw,
                             cq_Messages = ca_Messages raw,
                             cq_System = systemPrompts,
                             cq_Stream = ca_Stream raw,
                             cq_Temperature = ca_Temperature raw,
                             cq_TopP = ca_TopP raw,
                             cq_StopSequences = stopSequences,
                             cq_Metadata = ca_Metadata raw,
                             cq_Options =
                               putIf (ca_Metadata raw) ''metadata'' AMap
                              (putIf (if stopSequences \<noteq> [] then Some stopSequences else None) ''stop'' AStrings
                              (putIf (ca_TopP raw) ''top_p'' AFloat64
                              (putIf (ca_Temperature raw) ''temperature'' AFloat64
                              (putIf (ca_MaxTokens raw) ''max_tokens'' AInt
                               Map.empty))))\<rparr>
                    in (case ClaudeMessageRequest_validate r of
                          Some err \<Rightarrow> Inl err
                        | None \<Rightarrow> Inr r))))"

record ClaudeTextBlock =
  tb_Type :: string
  tb_Text :: string

record ClaudeUsage =
  cu_InputTokens :: goint
  cu_OutputTokens :: goint
  cu_TotalTokens :: goint

record ClaudeMessageResponse =
  cp_ID :: string
  cp_Type :: string
  cp_Role :: string
  cp_Model :: string
  cp_Content :: "ClaudeTextBlock list"
  cp_StopReason :: string
  cp_Usage :: ClaudeUsage
  cp_StopSeq :: string

definition FromUnifiedClaude :: "string \<Rightarrow> UnifiedChatResponse \<Rightarrow> ClaudeMessageResponse" where
  "FromUnifiedClaude modelID resp =
     \<lparr>cp_ID = rs_ID resp,
      cp_Type = ''message'',
      cp_Role = (if m_Role (rs_Message resp) = '''' then ''assistant'' else m_Role (rs_Message resp)),
      cp_Model = modelID,
      cp_Content =
        [\<lparr>tb_Type = ''text'',
          tb_Text = (if TrimSpace (m_Content (rs_Message resp)) = '''' then ''''
                     else m_Content (rs_Message resp))\<rparr>],
      cp_StopReason = rs_FinishReason resp,
      cp_Usage =
        \<lparr>cu_InputTokens = u_PromptTokens (rs_Usage resp),
         cu_OutputTokens = u_CompletionTokens (rs_Usage resp),
         cu_TotalTokens = u_TotalTokens (rs_Usage resp)\<rparr>,
      cp_StopSeq = ''''\<rparr>"

definition ClaudeMessageResponse_json :: "ClaudeMessageResponse \<Rightarrow> json" where
  "ClaudeMessageResponse_json r =
     JObj (jmember ''id'' (JStr (cp_ID r))
           @ jmember ''type'' (JStr (cp_Type r))
           @ jmember ''role'' (JStr (cp_Role r))
           @ jmember ''model'' (JStr (cp_Model r))
           @ jmember ''content''
               (JArr (map (\<lambda>b. JObj (jmember ''type'' (JStr (tb_Type b)) @ jmember ''text'' (JStr (tb_Text b))))
                        (cp_Content r)))
           @ omitempty ''stop_reason'' (nonEmpty (cp_StopReason r)) JStr
           @ jmember ''usage''
               (JObj (jmember ''input_tokens'' (jsonInt (cu_InputTokens (cp_Usage r)))
                      @ jmember ''output_tokens'' (jsonInt (cu_OutputTokens (cp_Usage r)))
                      @ jmember ''total_tokens'' (jsonInt (cu_TotalTokens (cp_Usage r)))))
           @ omitempty ''stop_sequence'' (nonEmpty (cp_StopSeq r)) JStr)"

section \<open>Maps as references\<close>

text \<open>
  A Go map is a reference: two request structs may hold the same map.  The store lists the
  maps that exist, a reference is an index into it, and the nil map is \<^const>\<open>None\<close>.
  \<^verbatim>\<open>make\<close> appends a map to the store.
\<close>

type_synonym mapref = "nat option"

type_synonym store = "options list"

definition deref :: "store \<Rightarrow> mapref \<Rightarrow> options" where
  "deref st ref =
     (case ref of
        None \<Rightarrow> Map.empty
      | Some a \<Rightarrow> if a < length st then st ! a else Map.empty)"

definition makeMap :: "options \<Rightarrow> store \<Rightarrow> mapref \<times> store" where
  "makeMap contents st = (Some (length st), st @ [contents])"

fun applyOp :: "map_op \<Rightarrow> options \<Rightarrow> options" where
  "applyOp (Store key v) opts = opts(key \<mapsto> v)"
| "applyOp (Delete key) opts = opts(key := None)"

text \<open>
  The stores and deletes of a provider reach the store through the one reference the
  provider holds.  (A store into the nil map panics in Go; it changes no map.)
\<close>

definition mutate :: "mapref \<Rightarrow> map_op list \<Rightarrow> store \<Rightarrow> store" where
  "mutate ref ops st =
     (case ref of
        None \<Rightarrow> st
      | Some a \<Rightarrow> if a < length st then st[a := fold applyOp ops (st ! a)] else st)"

text \<open>A request with the contents of its options map in place of the reference.\<close>

definition chatView :: "store \<Rightarrow> mapref UnifiedChatRequest \<Rightarrow> options UnifiedChatRequest" where
  "chatView st req =
     \<lparr>cr_Model = cr_Model req, cr_Messages = cr_Messages req, cr_Stream = cr_Stream req,
      cr_Options = deref st (cr_Options req)\<rparr>"

definition completionView ::
  "store \<Rightarrow> mapref UnifiedCompletionRequest \<Rightarrow> options UnifiedCompletionRequest"
where
  "completionView st req =
     \<lparr>pr_Model = pr_Model req, pr_Prompt = pr_Prompt req, pr_Stream = pr_Stream req,
      pr_MaxTokens = pr_MaxTokens req, pr_Temperature = pr_Temperature req,
      pr_Options = deref st (pr_Options req)\<rparr>"

section \<open>Package translator: into the canonical form\<close>

text \<open>Each \<^verbatim>\<open>ToUnified\<close> makes a new options map and copies the request's entries into it.\<close>

definition ChatCompletionRequest_ToUnified ::
  "ChatCompletionRequest \<Rightarrow> store \<Rightarrow> mapref UnifiedChatRequest \<times> store"
where
  "ChatCompletionRequest_ToUnified r st =
     (let (opts, st') = makeMap (cc_Options r) st
      in (\<lparr>cr_Model = cc_Model r,
           cr_Messages =
             map (\<lambda>m. \<lparr>m_Role = km_Role m, m_Content = km_Content m, m_Name = km_Name m\<rparr>) (cc_Messages r),
           cr_Stream = cc_Stream r,
           cr_Options = opts\<rparr>, st'))"

definition firstOrDefaultInt :: "goint option \<Rightarrow> goint" where
  "firstOrDefaultInt v = (case v of None \<Rightarrow> 0 | Some x \<Rightarrow> x)"

text \<open>
  \<^verbatim>\<open>firstOrDefaultFloat\<close> turns a nil pointer into the float 0; the canonical field keeps the
  pointer, and \<^const>\<open>None\<close> stands for that 0.
\<close>

definition CompletionRequest_ToUnified ::
  "CompletionRequest \<Rightarrow> store \<Rightarrow> mapref UnifiedCompletionRequest \<times> store"
where
  "CompletionRequest_ToUnified r st =
     (let (opts, st') = makeMap (pq_Options r) st
      in (\<lparr>pr_Model = pq_Model r,
           pr_Prompt = pq_Prompt r,
           pr_Stream = pq_Stream r,
           pr_MaxTokens = firstOrDefaultInt (pq_MaxTokens r),
           pr_Temperature = pq_Temperature r,
           pr_Options = opts\<rparr>, st'))"

definition ClaudeMessageRequest_ToUnified ::
  "ClaudeMessageRequest \<Rightarrow> store \<Rightarrow> mapref UnifiedChatRequest \<times> store"
where
  "ClaudeMessageRequest_ToUnified r st =
     (let (opts, st') = makeMap (cq_Options r) st
      in (\<lparr>cr_Model = cq_Model r,
           cr_Messages =
             map (\<lambda>systemMsg. \<lparr>m_Role = ''system'', m_Content = systemMsg, m_Name = ''''\<rparr>)
                 (filter (\<lambda>systemMsg. TrimSpace systemMsg \<noteq> '''') (cq_System r))
             @ map (\<lambda>m. \<lparr>m_Role = cm_Role m, m_Content = cm_Content m, m_Name = cm_Name m\<rparr>) (cq_Messages r),
           cr_Stream = cq_Stream r,
           cr_Options = opts\<rparr>, st'))"

section \<open>Package router: the dispatcher\<close>

text \<open>
  The world a request runs in: the store of maps, and the calls the router has made to
  providers, each with the provider's name, the request as the provider saw it and the
  reference to the options map it was handed.  Upstream calls are made by providers inside
  these calls only.
\<close>

datatype call =
    ChatCall string "options UnifiedChatRequest" mapref
  | CompletionCall string "options UnifiedCompletionRequest" mapref

record world =
  w_store :: store
  w_calls :: "call list"

definition cloneOptions :: "mapref \<Rightarrow> store \<Rightarrow> mapref \<times> store" where
  "cloneOptions opts st =
     (if deref st opts = Map.empty then (None, st)
      else makeMap (deref st opts) st)"

text \<open>The two \<^verbatim>\<open>fmt.Errorf\<close> calls that wrap a provider's error.\<close>

definition chatRequestError :: "string \<Rightarrow> error \<Rightarrow> error" where
  "chatRequestError name err = Wrapf (''provider '' @ name @ '' chat request: '' @ Error err) err"

definition completionRequestError :: "string \<Rightarrow> error \<Rightarrow> error" where
  "completionRequestError name err = Wrapf (''provider '' @ name @ '' completion request: '' @ Error err) err"

definition Router_Chat ::
  "Registry \<Rightarrow> mapref UnifiedChatRequest \<Rightarrow> world
     \<Rightarrow> (error + (UnifiedChatResponse option \<times> Model)) \<times> world"
where
  "Router_Chat r req w =
     (case LookupModel r (cr_Model req) of
        Inl err \<Rightarrow> (Inl err, w)
      | Inr (modelInfo, providerImpl) \<Rightarrow>
          let (opts, st1) = cloneOptions (cr_Options req) (w_store w);
              sanitisedReq = req\<lparr>cr_Model := ID modelInfo, cr_Options := opts\<rparr>;
              seen = chatView st1 sanitisedReq;
              (ops, result) = p_Chat providerImpl seen;
              w' = \<lparr>w_store = mutate opts ops st1,
                    w_calls = w_calls w @ [ChatCall (Name providerImpl) seen opts]\<rparr>
          in (case result of
                Inl err \<Rightarrow>
                  (Inl (chatRequestError (Name providerImpl) err), w')
              | Inr resp \<Rightarrow> (Inr (resp, modelInfo), w')))"

definition Router_Completion ::
  "Registry \<Rightarrow> mapref UnifiedCompletionRequest \<Rightarrow> world
     \<Rightarrow> (error + (UnifiedCompletionResponse option \<times> Model)) \<times> world"
where
  "Router_Completion r req w =
     (case LookupModel r (pr_Model req) of
        Inl err \<Rightarrow> (Inl err, w)
      | Inr (modelInfo, providerImpl) \<Rightarrow>
          let (opts, st1) = cloneOptions (pr_Options req) (w_store w);
              sanitisedReq = req\<lparr>pr_Model := ID modelInfo, pr_Options := opts\<rparr>;
              seen = completionView st1 sanitisedReq;
              (ops, result) = p_Completion providerImpl seen;
              w' = \<lparr>w_store = mutate opts ops st1,
                    w_calls = w_calls w @ [CompletionCall (Name providerImpl) seen opts]\<rparr>
          in (case result of
                Inl err \<Rightarrow>
                  (Inl (completionRequestError (Name providerImpl) err), w')
              | Inr resp \<Rightarrow> (Inr (resp, modelInfo), w')))"


section \<open>Package server: the HTTP surface\<close>


record requestError =
  Status :: nat
  Message :: string
  Type :: string
  Code :: string

text \<open>
  What a handler returns as its \<^verbatim>\<open>error\<close>: a \<^verbatim>\<open>requestError\<close>, or another error.  The type
  \<^verbatim>\<open>requestError\<close> is private to the package, so no error that comes back from the router
  holds one.
\<close>

datatype herror = RequestError requestError | OtherError error

subsection \<open>The response\<close>

text \<open>
  The response writer of one request: whether it can flush, its headers, the status once it is
  written, what has been written to the body (a JSON document handed to \<^verbatim>\<open>c.JSON\<close>, or raw
  bytes), the number of flushes, and when the connection breaks: \<open>Some (n, err)\<close> lets \<open>n\<close> more
  writes through and fails the next with \<open>err\<close>.  What the web framework adds to a JSON response
  of its own accord (headers, line ends) is left out.
\<close>

datatype written = Bytes string | JSONDoc json

record ResponseWriter =
  rw_Flusher :: bool
  rw_Header :: "string \<rightharpoonup> string"
  rw_Status :: "nat option"
  rw_Body :: "written list"
  rw_Flushes :: nat
  rw_Broken :: "(nat \<times> error) option"

definition WriteHeader :: "nat \<Rightarrow> ResponseWriter \<Rightarrow> ResponseWriter" where
  "WriteHeader code w = (if rw_Status w = None then w\<lparr>rw_Status := Some code\<rparr> else w)"

definition Write :: "written \<Rightarrow> ResponseWriter \<Rightarrow> error option \<times> ResponseWriter" where
  "Write x w =
     (case rw_Broken w of
        None \<Rightarrow> (None, (WriteHeader 200 w)\<lparr>rw_Body := rw_Body w @ [x]\<rparr>)
      | Some (0, err) \<Rightarrow> (Some err, WriteHeader 200 w)
      | Some (Suc n, err) \<Rightarrow>
          (None, (WriteHeader 200 w)\<lparr>rw_Body := rw_Body w @ [x], rw_Broken := Some (n, err)\<rparr>))"

definition Flush :: "ResponseWriter \<Rightarrow> ResponseWriter" where
  "Flush w = w\<lparr>rw_Flushes := Suc (rw_Flushes w)\<rparr>"

definition JSON :: "nat \<Rightarrow> json \<Rightarrow> ResponseWriter \<Rightarrow> error option \<times> ResponseWriter" where
  "JSON code v w = Write (JSONDoc v) (WriteHeader code w)"

definition errorBody :: "string \<Rightarrow> string \<Rightarrow> string \<Rightarrow> json" where
  "errorBody message errType code =
     JObj (jmember ''error''
       (JObj (jmember ''message'' (JStr message) @ jmember ''type'' (JStr errType)
              @ omitempty ''code'' (nonEmpty code) JStr)))"

definition writeError ::
  "nat \<Rightarrow> string \<Rightarrow> string \<Rightarrow> string \<Rightarrow> ResponseWriter \<Rightarrow> error option \<times> ResponseWriter"
where
  "writeError status message errType code w = JSON status (errorBody message errType code) w"

text \<open>
  The error handler the server installs.  Its middle branch asks for an error with a method
  \<^verbatim>\<open>Code() int\<close>; no error of the model has one.
\<close>

definition openAIErrorHandler :: "herror \<Rightarrow> ResponseWriter \<Rightarrow> ResponseWriter" where
  "openAIErrorHandler err w =
     (case err of
        RequestError reqErr \<Rightarrow>
          snd (writeError (Status reqErr) (Message reqErr) (Type reqErr) (Code reqErr) w)
      | OtherError e \<Rightarrow> snd (writeError 500 ''internal server error'' ''server_error'' '''' w))"

text \<open>
  \<^verbatim>\<open>toHTTPError\<close> first asks with \<^verbatim>\<open>errors.As\<close> for a \<^verbatim>\<open>requestError\<close> in the chain, which
  no error of the router has; the sentinels are then looked for with \<^verbatim>\<open>errors.Is\<close>.
\<close>

definition toHTTPError :: "error \<Rightarrow> requestError" where
  "toHTTPError err =
     (if Is err ErrUnknownModel
      then \<lparr>Status = 400, Message = Error err, Type = ''invalid_request_error'', Code = ''''\<rparr>
      else if Is err ErrUnsupportedOperation
      then \<lparr>Status = 400, Message = Error err, Type = ''invalid_request_error'', Code = ''''\<rparr>
      else \<lparr>Status = 502, Message = ''upstream provider error'', Type = ''upstream_error'', Code = ''''\<rparr>)"

subsection \<open>Reading the request body\<close>










subsection \<open>The Claude event stream\<close>

definition usageMap :: "UnifiedChatResponse \<Rightarrow> json" where
  "usageMap resp =
     JObj (jmember ''input_tokens'' (jsonInt (u_PromptTokens (rs_Usage resp)))
           @ jmember ''output_tokens'' (jsonInt (u_CompletionTokens (rs_Usage resp)))
           @ jmember ''total_tokens'' (jsonInt (u_TotalTokens (rs_Usage resp))))"

text \<open>The slice \<^verbatim>\<open>events\<close> of \<^verbatim>\<open>writeClaudeStream\<close>: each event's name and payload.\<close>

definition claudeEvents :: "string \<Rightarrow> UnifiedChatResponse \<Rightarrow> (string \<times> json) list" where
  "claudeEvents modelID resp =
     [(''message_start'',
       JObj (jmember ''type'' (JStr ''message_start'')
             @ jmember ''message''
                 (JObj (jmember ''id'' (JStr (rs_ID resp))
                        @ jmember ''type'' (JStr ''message'')
                        @ jmember ''role'' (JStr (m_Role (rs_Message resp)))
                        @ jmember ''model'' (JStr modelID)
                        @ jmember ''content'' (JArr [])
                        @ jmember ''stop_reason'' JNull
                        @ jmember ''stop_sequence'' JNull
                        @ jmember ''usage'' (usageMap resp))))),
      (''content_block_start'',
       JObj (jmember ''type'' (JStr ''content_block_start'')
             @ jmember ''index'' (JNum 0)
             @ jmember ''content_block''
                 (JObj (jmember ''type'' (JStr ''text'') @ jmember ''text'' (JStr ''''))))),
      (''content_block_delta'',
       JObj (jmember ''type'' (JStr ''content_block_delta'')
             @ jmember ''index'' (JNum 0)
             @ jmember ''delta''
                 (JObj (jmember ''type'' (JStr ''text_delta'')
                        @ jmember ''text'' (JStr (m_Content (rs_Message resp))))))),
      (''content_block_stop'',
       JObj (jmember ''type'' (JStr ''content_block_stop'') @ jmember ''index'' (JNum 0))),
      (''message_delta'',
       JObj (jmember ''type'' (JStr ''message_delta'')
             @ jmember ''delta''
                 (JObj (jmember ''stop_reason'' (JStr (rs_FinishReason resp))
                        @ jmember ''stop_sequence'' JNull))
             @ jmember ''usage'' (usageMap resp))),
      (''message_stop'',
       JObj (jmember ''type'' (JStr ''message_stop'')))]"

text \<open>
  \<^verbatim>\<open>json.Marshal\<close> is a parameter, \<open>marshal\<close>; it does not fail on these payloads.
\<close>

definition writeSSEEvent ::
  "(json \<Rightarrow> string) \<Rightarrow> string \<Rightarrow> json \<Rightarrow> ResponseWriter \<Rightarrow> error option \<times> ResponseWriter"
where
  "writeSSEEvent marshal event payload w =
     (case Write (Bytes (''event: '' @ event @ [CHR 0x0A])) w of
        (Some err, w1) \<Rightarrow> (Some (Wrapf (''write SSE event name: '' @ Error err) err), w1)
      | (None, w1) \<Rightarrow>
          (case Write (Bytes (''data: '' @ marshal payload @ [CHR 0x0A, CHR 0x0A])) w1 of
             (Some err, w2) \<Rightarrow> (Some (Wrapf (''write SSE data: '' @ Error err) err), w2)
           | (None, w2) \<Rightarrow> (None, w2)))"

fun writeEvents ::
  "(json \<Rightarrow> string) \<Rightarrow> (string \<times> json) list \<Rightarrow> ResponseWriter \<Rightarrow> error option \<times> ResponseWriter"
where
  "writeEvents marshal [] w = (None, w)"
| "writeEvents marshal ((name, payload) # rest) w =
     (case writeSSEEvent marshal name payload w of
        (Some err, w1) \<Rightarrow> (Some err, w1)
      | (None, w1) \<Rightarrow> writeEvents marshal rest (Flush w1))"

definition writeClaudeStream ::
  "(json \<Rightarrow> string) \<Rightarrow> string \<Rightarrow> UnifiedChatResponse \<Rightarrow> ResponseWriter
     \<Rightarrow> herror option \<times> ResponseWriter"
where
  "writeClaudeStream marshal modelID resp w =
     (if \<not> rw_Flusher w
      then (Some (RequestError \<lparr>Status = 500, Message = ''server does not support streaming responses'',
                                 Type = ''server_error'', Code = ''''\<rparr>), w)
      else
        let w1 = w\<lparr>rw_Header := (rw_Header w)(''Content-Type'' \<mapsto> ''text/event-stream'',
                                                ''Cache-Control'' \<mapsto> ''no-cache'',
                                                ''Connection'' \<mapsto> ''keep-alive'')\<rparr>;
            w2 = WriteHeader 200 w1;
            (err, w3) = writeEvents marshal (claudeEvents modelID resp) w2
        in (map_option OtherError err, w3))"

subsection \<open>The handlers\<close>

text \<open>
  A handler is given the result of its first statement, \<^verbatim>\<open>decodeRequestBody(c, &req)\<close>, the
  router's registry, and for the two OpenAI handlers the clock reading \<^verbatim>\<open>time.Now().Unix()\<close>.
  It returns its error, the world and the response.
\<close>

definition emptyResponse :: requestError where
  "emptyResponse =
     \<lparr>Status = 502, Message = ''upstream provider returned an empty response'',
      Type = ''upstream_error'', Code = ''''\<rparr>"

definition handleChatCompletions ::
  "Registry \<Rightarrow> goint \<Rightarrow> requestError + ChatCompletionRequest \<Rightarrow> world \<Rightarrow> ResponseWriter
     \<Rightarrow> herror option \<times> world \<times> ResponseWriter"
where
  "handleChatCompletions rt now decoded wd w =
     (case decoded of
        Inl err \<Rightarrow> (Some (RequestError err), wd, w)
      | Inr req \<Rightarrow>
          let (unifiedReq, st1) = ChatCompletionRequest_ToUnified req (w_store wd);
              (result, wd1) = Router_Chat rt unifiedReq (wd\<lparr>w_store := st1\<rparr>)
          in (case result of
                Inl err \<Rightarrow> (Some (RequestError (toHTTPError err)), wd1, w)
              | Inr (None, modelInfo) \<Rightarrow> (Some (RequestError emptyResponse), wd1, w)
              | Inr (Some resp, modelInfo) \<Rightarrow>
                  let (err, w1) =
                        JSON 200 (ChatCompletionResponse_json (FromUnifiedChat (ID modelInfo) now resp)) w
                  in (map_option OtherError err, wd1, w1)))"

definition handleCompletions ::
  "Registry \<Rightarrow> goint \<Rightarrow> requestError + CompletionRequest \<Rightarrow> world \<Rightarrow> ResponseWriter
     \<Rightarrow> herror option \<times> world \<times> ResponseWriter"
where
  "handleCompletions rt now decoded wd w =
     (case decoded of
        Inl err \<Rightarrow> (Some (RequestError err), wd, w)
      | Inr req \<Rightarrow>
          let (unifiedReq, st1) = CompletionRequest_ToUnified req (w_store wd);
              (result, wd1) = Router_Completion rt unifiedReq (wd\<lparr>w_store := st1\<rparr>)
          in (case result of
                Inl err \<Rightarrow> (Some (RequestError (toHTTPError err)), wd1, w)
              | Inr (None, modelInfo) \<Rightarrow> (Some (RequestError emptyResponse), wd1, w)
              | Inr (Some resp, modelInfo) \<Rightarrow>
                  let (err, w1) =
                        JSON 200 (CompletionResponse_json (FromUnifiedCompletion (ID modelInfo) now resp)) w
                  in (map_option OtherError err, wd1, w1)))"

definition handleClaudeMessages ::
  "(json \<Rightarrow> string) \<Rightarrow> Registry \<Rightarrow> requestError + ClaudeMessageRequest \<Rightarrow> world \<Rightarrow> ResponseWriter
     \<Rightarrow> herror option \<times> world \<times> ResponseWriter"
where
  "handleClaudeMessages marshal rt decoded wd w =
     (case decoded of
        Inl err \<Rightarrow> (Some (RequestError err), wd, w)
      | Inr req \<Rightarrow>
          let requestedStream = cq_Stream req;
              (unifiedReq0, st1) = ClaudeMessageRequest_ToUnified req (w_store wd);
              unifiedReq = unifiedReq0\<lparr>cr_Stream := False\<rparr>;
              (result, wd1) = Router_Chat rt unifiedReq (wd\<lparr>w_store := st1\<rparr>)
          in (case result of
                Inl err \<Rightarrow> (Some (RequestError (toHTTPError err)), wd1, w)
              | Inr (None, modelInfo) \<Rightarrow> (Some (RequestError emptyResponse), wd1, w)
              | Inr (Some resp, modelInfo) \<Rightarrow>
                  if requestedStream
                  then (let (err, w1) = writeClaudeStream marshal (ID modelInfo) resp w
                        in (err, wd1, w1))
                  else (let (err, w1) =
                              JSON 200 (ClaudeMessageResponse_json (FromUnifiedClaude (ID modelInfo) resp)) w
                        in (map_option OtherError err, wd1, w1))))"

text \<open>
  A route: the body is decoded into the handler's request type, the handler runs, and an error
  it returns goes to the error handler.  \<open>decodeAlias\<close> is \<^verbatim>\<open>json.Unmarshal\<close> into the local
  struct \<^verbatim>\<open>alias\<close> of the request type, a parameter.
\<close>

definition respond :: "herror option \<times> world \<times> ResponseWriter \<Rightarrow> world \<times> ResponseWriter" where
  "respond out =
     (case out of
        (None, wd, w) \<Rightarrow> (wd, w)
      | (Some err, wd, w) \<Rightarrow> (wd, openAIErrorHandler err w))"




section \<open>From ingress to the adapter\<close>

text \<open>
  The path of a decoded Claude request to the payload the Claude adapter builds from it, and
  of a decoded OpenAI chat request to the \<^verbatim>\<open>stop\<close> entry of the canonical options map.
\<close>

definition claudeIngress :: "numlib \<Rightarrow> claudeAlias \<Rightarrow> error + messagePayload" where
  "claudeIngress lib raw =
     (case ClaudeMessageRequest_UnmarshalJSON (Inr raw) of
        Inl err \<Rightarrow> Inl err
      | Inr req \<Rightarrow>
          (let (unifiedReq, st) = ClaudeMessageRequest_ToUnified req []
           in buildMessagePayload lib (chatView st unifiedReq)))"

definition canonicalStop :: "chatAlias \<Rightarrow> error + any option" where
  "canonicalStop raw =
     (case ChatCompletionRequest_UnmarshalJSON (Inr raw) of
        Inl err \<Rightarrow> Inl err
      | Inr req \<Rightarrow>
          (let (unifiedReq, st) = ChatCompletionRequest_ToUnified req []
           in Inr (deref st (cr_Options unifiedReq) ''stop'')))"

section \<open>Notions of the specification\<close>

text \<open>The usage object of an OpenAI response, as the specification words it.\<close>

definition usageOf :: "Usage \<Rightarrow> OpenAIUsage option" where
  "usageOf u =
     (if u_PromptTokens u = 0 \<and> u_CompletionTokens u = 0 \<and> u_TotalTokens u = 0 then None
      else Some \<lparr>ou_PromptTokens = u_PromptTokens u,
                 ou_CompletionTokens = u_CompletionTokens u,
                 ou_TotalTokens = u_TotalTokens u\<rparr>)"


definition textBlock :: "string \<Rightarrow> json" where
  "textBlock t = JObj [(''type'', JStr ''text''), (''text'', JStr t)]"



text \<open>
  The registries the code can build: the empty one, and what a call of \<^verbatim>\<open>RegisterProvider\<close>
  leaves behind, whether it returns an error or not.
\<close>

inductive built :: "Registry \<Rightarrow> bool" where
  built_new: "built NewRegistry"
| built_register: "built r \<Longrightarrow> built (snd (RegisterProvider po aliases r))"

text \<open>Every entry of a model map is also bound to the id of its own descriptor.\<close>

definition selfKeyed :: "(string \<rightharpoonup> modelEntry) \<Rightarrow> bool" where
  "selfKeyed ms = (\<forall>k e. ms k = Some e \<longrightarrow> ms (ID (model e)) = Some e)"

text \<open>
  A reference a caller can hold: nil, or a map of the store.  The reference of a fresh copy
  of a map: nil for a map without entries, and otherwise the next free place of the store.
\<close>

definition allocated :: "mapref \<Rightarrow> store \<Rightarrow> bool" where
  "allocated ref st = (case ref of None \<Rightarrow> True | Some a \<Rightarrow> a < length st)"

definition freshCopy :: "mapref \<Rightarrow> store \<Rightarrow> mapref" where
  "freshCopy ref st = (if deref st ref = Map.empty then None else Some (length st))"

text \<open>
  The two request errors the HTTP surface answers a bad body and an unknown model with, the
  frames of a list of server-sent events (for each event the line of its name and the line of
  its data), and the text of the delta of an event's payload.
\<close>

definition unknownModel :: "string \<Rightarrow> requestError" where
  "unknownModel modelID =
     \<lparr>Status = 400, Message = ''unknown model: '' @ modelID,
      Type = ''invalid_request_error'', Code = ''''\<rparr>"




section \<open>Sample values\<close>

text \<open>Concrete providers and registries on which the theorems below are instantiated.\<close>

definition stubProvider :: "string \<Rightarrow> string list \<Rightarrow> Provider" where
  "stubProvider n ids =
     \<lparr>Name = n,
      ListModels = Inr (map (\<lambda>i. \<lparr>ID = i, Provider = n, APIStyle = ''openai''\<rparr>) ids),
      p_Chat = (\<lambda>req. ([], Inl ErrUnsupportedOperation)),
      p_Completion = (\<lambda>req. ([], Inl ErrUnsupportedOperation))\<rparr>"

definition reg0 :: Registry where
  "reg0 = \<lparr>models = [''m1'' \<mapsto> \<lparr>model = \<lparr>ID = ''m1'', Provider = ''a'', APIStyle = ''openai''\<rparr>,
                                provider = stubProvider ''a'' [''m1'']\<rparr>],
           byName = [''a'' \<mapsto> stubProvider ''a'' [''m1'']]\<rparr>"

definition sampleChatResponse :: UnifiedChatResponse where
  "sampleChatResponse =
     \<lparr>rs_Message = \<lparr>m_Role = ''assistant'', m_Content = ''hello'', m_Name = ''''\<rparr>,
      rs_Usage = \<lparr>u_PromptTokens = 3, u_CompletionTokens = 0, u_TotalTokens = 0\<rparr>,
      rs_FinishReason = ''stop'',
      rs_ID = ''chatcmpl-1''\<rparr>"

definition sampleCompletionResponse :: UnifiedCompletionResponse where
  "sampleCompletionResponse =
     \<lparr>ps_Text = ''hello'',
      ps_Usage = \<lparr>u_PromptTokens = 0, u_CompletionTokens = 0, u_TotalTokens = 0\<rparr>,
      ps_FinishReason = ''stop'',
      ps_ID = ''cmpl-1''\<rparr>"

definition sampleMessageResponse :: "contentBlock list \<Rightarrow> messageResponse" where
  "sampleMessageResponse blocks =
     \<lparr>mr_ID = ''msg_1'', mr_Role = '''', mr_Content = blocks,
      mr_Usage = \<lparr>ub_InputTokens = 7, ub_OutputTokens = 5\<rparr>,
      mr_StopReason = ''end_turn''\<rparr>"

definition lib0 :: numlib where
  "lib0 = \<lparr>intOfFloat = (\<lambda>v. 0), NumberInt64 = (\<lambda>s. None), NumberFloat64 = (\<lambda>s. None)\<rparr>"

definition rawChat :: chatAlias where
  "rawChat = \<lparr>al_Model = ''m1'',
     al_Messages = [\<lparr>km_Role = ''user'', km_Content = ''hi'', km_Name = ''''\<rparr>],
     al_Stream = False, al_MaxTokens = Some 5, al_Temperature = None, al_TopP = None,
     al_FrequencyPenalty = None, al_PresencePenalty = None, al_Stop = None,
     al_ResponseFormat = None, al_Tools = None, al_ToolChoice = None, al_LogitBias = None,
     al_Metadata = None, al_User = '''', al_Seed = None\<rparr>"

definition rawClaude :: "json option \<Rightarrow> claudeAlias" where
  "rawClaude system =
     \<lparr>ca_Model = ''m2'', ca_MaxTokens = Some 10,
      ca_Messages = [\<lparr>cm_Role = ''user'', cm_Content = ''q'', cm_Name = ''''\<rparr>],
      ca_System = system,
      ca_Stream = False, ca_Temperature = None, ca_TopP = None,
      ca_StopSequences = None, ca_Metadata = None\<rparr>"





definition world0 :: world where
  "world0 = \<lparr>w_store = [], w_calls = []\<rparr>"

definition writer0 :: ResponseWriter where
  "writer0 = \<lparr>rw_Flusher = True, rw_Header = Map.empty, rw_Status = None, rw_Body = [],
              rw_Flushes = 0, rw_Broken = None\<rparr>"

definition scribbler :: Provider where
  "scribbler =
     \<lparr>Name = ''scribbler'',
      ListModels = Inr [\<lparr>ID = ''m1'', Provider = ''scribbler'', APIStyle = ''openai''\<rparr>],
      p_Chat = (\<lambda>req. ([Store ''max_tokens'' (AInt 0), Delete ''stop''], Inl ErrUnsupportedOperation)),
      p_Completion = (\<lambda>req. ([Store ''max_tokens'' (AInt 0)], Inl ErrUnsupportedOperation))\<rparr>"

definition regAlias :: Registry where
  "regAlias = snd (RegisterProvider (Some scribbler) [(''alias-x'', ''m1'')] NewRegistry)"

definition reqAlias :: "mapref UnifiedChatRequest" where
  "reqAlias = \<lparr>cr_Model = ''alias-x'',
               cr_Messages = [\<lparr>m_Role = ''user'', m_Content = ''hi'', m_Name = ''''\<rparr>],
               cr_Stream = False, cr_Options = Some 0\<rparr>"

definition creqAlias :: "mapref UnifiedCompletionRequest" where
  "creqAlias = \<lparr>pr_Model = ''alias-x'', pr_Prompt = ''hi'', pr_Stream = False, pr_MaxTokens = 5,
                pr_Temperature = None, pr_Options = Some 0\<rparr>"

definition world1 :: world where
  "world1 = \<lparr>w_store = [[''max_tokens'' \<mapsto> AInt 5]], w_calls = []\<rparr>"

definition reqUnknown :: ChatCompletionRequest where
  "reqUnknown =
     \<lparr>cc_Model = ''gpt-x'',
      cc_Messages = [\<lparr>km_Role = ''user'', km_Content = ''hi'', km_Name = ''''\<rparr>],
      cc_Stream = False, cc_MaxTokens = Some 5, cc_Temperature = None, cc_TopP = None,
      cc_FrequencyPenalty = None, cc_PresencePenalty = None, cc_Stop = [],
      cc_ResponseFormat = None, cc_ToolsRaw = None, cc_ToolChoiceRaw = None,
      cc_LogitBias = None, cc_Metadata = None, cc_User = '''',
      cc_Options = [''max_tokens'' \<mapsto> AInt 5]\<rparr>"

definition reqCompletion :: CompletionRequest where
  "reqCompletion =
     \<lparr>pq_Model = ''m2'', pq_Prompt = ''hi'', pq_Stream = False, pq_MaxTokens = Some 5,
      pq_Temperature = None, pq_TopP = None, pq_Options = [''max_tokens'' \<mapsto> AInt 5]\<rparr>"




definition reqStream :: ClaudeMessageRequest where
  "reqStream =
     \<lparr>cq_Model = ''m2'', cq_MaxTokens = Some 10,
      cq_Messages = [\<lparr>cm_Role = ''user'', cm_Content = ''q'', cm_Name = ''''\<rparr>],
      cq_System = [], cq_Stream = True, cq_Temperature = None, cq_TopP = None,
      cq_StopSequences = [], cq_Metadata = None,
      cq_Options = [''max_tokens'' \<mapsto> AInt 10]\<rparr>"


section \<open>Registration is not rolled back\<close>







section \<open>The usage object of the OpenAI responses\<close>

lemma field_usage_chat:
  "field (ChatCompletionResponse_json r) ''usage'' = map_option OpenAIUsage_json (co_Usage r)"
  by (simp add: ChatCompletionResponse_json_def jmember_def omitempty_def split: option.splits)

lemma field_usage_completion:
  "field (CompletionResponse_json r) ''usage'' = map_option OpenAIUsage_json (po_Usage r)"
  by (simp add: CompletionResponse_json_def jmember_def omitempty_def split: option.splits)

text \<open>
  Claim C10.  For a chat response and for a completion response, the \<^verbatim>\<open>Usage\<close> pointer of
  the OpenAI response is nil exactly when prompt, completion and total tokens are all zero, and
  otherwise points to the three counts unchanged; the JSON document has a member \<^verbatim>\<open>usage\<close>
  exactly when the pointer is not nil, and the member is that usage object.
\<close>

theorem usage_omitted_iff_all_zero:
  "co_Usage (FromUnifiedChat modelID created resp) = usageOf (rs_Usage resp) \<and>
   field (ChatCompletionResponse_json (FromUnifiedChat modelID created resp)) ''usage''
     = map_option OpenAIUsage_json (usageOf (rs_Usage resp)) \<and>
   po_Usage (FromUnifiedCompletion modelID created cresp) = usageOf (ps_Usage cresp) \<and>
   field (CompletionResponse_json (FromUnifiedCompletion modelID created cresp)) ''usage''
     = map_option OpenAIUsage_json (usageOf (ps_Usage cresp))"
proof -
  have a: "co_Usage (FromUnifiedChat modelID created resp) = usageOf (rs_Usage resp)"
    by (simp add: FromUnifiedChat_def usageOf_def)
  have b: "po_Usage (FromUnifiedCompletion modelID created cresp) = usageOf (ps_Usage cresp)"
    by (simp add: FromUnifiedCompletion_def usageOf_def)
  show ?thesis
    using a b by (simp add: field_usage_chat field_usage_completion)
qed

text \<open>
  The theorem at a chat response with three prompt tokens only, whose document carries the
  usage object, and at a completion response with no tokens, whose document has none.
\<close>

theorem usage_omitted_iff_all_zero_witness:
  "field (ChatCompletionResponse_json (FromUnifiedChat ''m1'' 1700000000 sampleChatResponse)) ''usage''
     = Some (JObj [(''prompt_tokens'', JNum 3), (''completion_tokens'', JNum 0), (''total_tokens'', JNum 0)]) \<and>
   field (CompletionResponse_json (FromUnifiedCompletion ''m1'' 1700000000 sampleCompletionResponse)) ''usage''
     = None"
  using usage_omitted_iff_all_zero[of "''m1''" 1700000000 sampleChatResponse sampleCompletionResponse]
  by (simp add: usageOf_def sampleChatResponse_def sampleCompletionResponse_def OpenAIUsage_json_def
        jmember_def jsonInt_def)

section \<open>The Claude adapter's translation of the upstream response\<close>

lemma writeBlocks_text:
  "list_all (\<lambda>b. cb_Type b = ''text'') bs \<Longrightarrow> writeBlocks bs acc = Inr (acc @ concat (map cb_Text bs))"
  by (induction bs arbitrary: acc) simp_all

lemma writeBlocks_other:
  "find (\<lambda>b. cb_Type b \<noteq> ''text'') bs = Some b \<Longrightarrow>
   writeBlocks bs acc = Inl (New (''claude returned unsupported content block type '' @ quote (cb_Type b)))"
  by (induction bs arbitrary: acc) (auto split: if_splits)

lemma find_None_all: "find P xs = None \<Longrightarrow> list_all (\<lambda>x. \<not> P x) xs"
  by (induction xs) (auto split: if_splits)

lemma toUnified_cases:
  "toUnified r =
     (if mr_Content r = [] then Inl (New ''claude response missing content blocks'')
      else
        (case find (\<lambda>b. cb_Type b \<noteq> ''text'') (mr_Content r) of
           Some b \<Rightarrow> Inl (New (''claude returned unsupported content block type '' @ quote (cb_Type b)))
         | None \<Rightarrow>
             Inr \<lparr>rs_Message =
                    \<lparr>m_Role = (if mr_Role r = '''' then ''assistant'' else mr_Role r),
                     m_Content = concat (map cb_Text (mr_Content r)),
                     m_Name = ''''\<rparr>,
                  rs_Usage =
                    \<lparr>u_PromptTokens = ub_InputTokens (mr_Usage r),
                     u_CompletionTokens = ub_OutputTokens (mr_Usage r),
                     u_TotalTokens = ub_InputTokens (mr_Usage r) + ub_OutputTokens (mr_Usage r)\<rparr>,
                  rs_FinishReason = mr_StopReason r,
                  rs_ID = mr_ID r\<rparr>))"
proof (cases "find (\<lambda>b. cb_Type b \<noteq> ''text'') (mr_Content r)")
  case None
  then have "list_all (\<lambda>b. cb_Type b = ''text'') (mr_Content r)"
    using find_None_all[of "\<lambda>b. cb_Type b \<noteq> ''text''" "mr_Content r"] by simp
  then have "writeBlocks (mr_Content r) '''' = Inr (concat (map cb_Text (mr_Content r)))"
    using writeBlocks_text[of "mr_Content r" "''''"] by simp
  with None show ?thesis by (simp add: toUnified_def)
next
  case (Some b)
  then show ?thesis by (simp add: toUnified_def writeBlocks_other)
qed

lemma sint_add_in_range:
  fixes a b :: goint
  assumes "- (2 ^ 63) \<le> sint a + sint b" and "sint a + sint b < 2 ^ 63"
  shows "sint (a + b) = sint a + sint b"
  using assms by (simp add: sint_word_ariths signed_take_bit_int_eq_self)

text \<open>
  Claim C5, as the code has it.  The translation of an upstream response fails when the
  response has no content block, and fails at the first block whose type is not \<^verbatim>\<open>text\<close>;
  otherwise it succeeds, and the canonical response has as content the texts of all blocks
  concatenated in order, as role the upstream role or \<^verbatim>\<open>assistant\<close> when that is empty, and
  as total tokens the Go sum of input and output tokens (the integer sum whenever that fits a
  64-bit \<^verbatim>\<open>int\<close>).  Every error of the translation is a provider error: wrapped by the router
  and passed through \<^verbatim>\<open>toHTTPError\<close> it is the 502 \<^verbatim>\<open>upstream_error\<close>.
\<close>

theorem toUnified_translation:
  "toUnified r =
     (if mr_Content r = [] then Inl (New ''claude response missing content blocks'')
      else
        (case find (\<lambda>b. cb_Type b \<noteq> ''text'') (mr_Content r) of
           Some b \<Rightarrow> Inl (New (''claude returned unsupported content block type '' @ quote (cb_Type b)))
         | None \<Rightarrow>
             Inr \<lparr>rs_Message =
                    \<lparr>m_Role = (if mr_Role r = '''' then ''assistant'' else mr_Role r),
                     m_Content = concat (map cb_Text (mr_Content r)),
                     m_Name = ''''\<rparr>,
                  rs_Usage =
                    \<lparr>u_PromptTokens = ub_InputTokens (mr_Usage r),
                     u_CompletionTokens = ub_OutputTokens (mr_Usage r),
                     u_TotalTokens = ub_InputTokens (mr_Usage r) + ub_OutputTokens (mr_Usage r)\<rparr>,
                  rs_FinishReason = mr_StopReason r,
                  rs_ID = mr_ID r\<rparr>))
   \<and> (\<forall>err. toUnified r = Inl err \<longrightarrow>
          toHTTPError (chatRequestError name err)
            = \<lparr>Status = 502, Message = ''upstream provider error'', Type = ''upstream_error'', Code = ''''\<rparr>)
   \<and> (- (2 ^ 63) \<le> sint (ub_InputTokens (mr_Usage r)) + sint (ub_OutputTokens (mr_Usage r))
        \<and> sint (ub_InputTokens (mr_Usage r)) + sint (ub_OutputTokens (mr_Usage r)) < 2 ^ 63
      \<longrightarrow> sint (ub_InputTokens (mr_Usage r) + ub_OutputTokens (mr_Usage r))
            = sint (ub_InputTokens (mr_Usage r)) + sint (ub_OutputTokens (mr_Usage r)))"
proof -
  have plain: "\<exists>m. err = New m" if "toUnified r = Inl err" for err
    using that unfolding toUnified_cases[of r] by (auto split: if_splits option.splits)
  have kind: "toHTTPError (chatRequestError name err)
      = \<lparr>Status = 502, Message = ''upstream provider error'', Type = ''upstream_error'', Code = ''''\<rparr>"
    if "toUnified r = Inl err" for err
    using plain[OF that] by (auto simp: toHTTPError_def chatRequestError_def)
  show ?thesis using toUnified_cases[of r] kind sint_add_in_range by blast
qed

text \<open>
  The theorem at a response with the two text blocks \<^verbatim>\<open>Hel\<close> and \<^verbatim>\<open>lo\<close>, no role, 7 input
  and 5 output tokens.
\<close>

theorem toUnified_translation_witness:
  "toUnified (sampleMessageResponse [\<lparr>cb_Type = ''text'', cb_Text = ''Hel''\<rparr>, \<lparr>cb_Type = ''text'', cb_Text = ''lo''\<rparr>])
     = Inr \<lparr>rs_Message = \<lparr>m_Role = ''assistant'', m_Content = ''Hello'', m_Name = ''''\<rparr>,
            rs_Usage = \<lparr>u_PromptTokens = 7, u_CompletionTokens = 5, u_TotalTokens = 12\<rparr>,
            rs_FinishReason = ''end_turn'', rs_ID = ''msg_1''\<rparr>
   \<and> sint (7 + 5 :: goint) = 12"
  using toUnified_translation[of "sampleMessageResponse [\<lparr>cb_Type = ''text'', cb_Text = ''Hel''\<rparr>,
      \<lparr>cb_Type = ''text'', cb_Text = ''lo''\<rparr>]" "''claude''"]
  by (simp add: sampleMessageResponse_def)

text \<open>
  Claim C5 as stated fails at a response without content blocks: no block has a type other
  than \<^verbatim>\<open>text\<close>, and the translation yields no string but the error of its guard.
\<close>

theorem toUnified_no_blocks:
  "list_all (\<lambda>b. cb_Type b = ''text'') (mr_Content (sampleMessageResponse [])) \<and>
   toUnified (sampleMessageResponse []) = Inl (New ''claude response missing content blocks'')"
  by (simp add: toUnified_def sampleMessageResponse_def)

section \<open>The stop value of an OpenAI chat request\<close>

lemma TrimSpace_samples:
  "TrimSpace '' a'' = ''a''" "TrimSpace ''m1'' = ''m1''" "TrimSpace ''hi'' = ''hi''"
  "TrimSpace ''m2'' = ''m2''" "TrimSpace ''q'' = ''q''" "TrimSpace ''x'' = ''x''"
  "TrimSpace ''A'' = ''A''" "TrimSpace ''B'' = ''B''"
  "TrimSpace ''user'' = ''user''" "TrimSpace ''system'' = ''system''"
  "TrimSpace ''assistant'' = ''assistant''"
  by (simp_all add: TrimSpace_def isSpace_def)

lemma ToLower_samples:
  "ToLower ''type'' = ''type''" "ToLower ''text'' = ''text''"
  "ToLower ''user'' = ''user''" "ToLower ''system'' = ''system''"
  "ToLower ''assistant'' = ''assistant''"
  by (simp_all add: ToLower_def lowerChar_def)

text \<open>
  Claim C7 at the string \<^verbatim>\<open>" a"\<close>.  Given as a single string it is kept as it is; given as
  a one-element array it is trimmed: the two requests get different canonical stop values.
  (The single-string branch of \<^verbatim>\<open>parseStop\<close> trims for its emptiness test only.)
\<close>

theorem stop_string_and_array_differ:
  "parseStop (Some (JStr '' a'')) = Inr ['' a''] \<and>
   parseStop (Some (JArr [JStr '' a''])) = Inr [''a''] \<and>
   canonicalStop (rawChat\<lparr>al_Stop := Some (JStr '' a'')\<rparr>) = Inr (Some (AStrings ['' a''])) \<and>
   canonicalStop (rawChat\<lparr>al_Stop := Some (JArr [JStr '' a''])\<rparr>) = Inr (Some (AStrings [''a'']))"
  by (simp add: parseStop_def TrimSpace_samples errUnsupportedStop_def canonicalStop_def rawChat_def
      ChatCompletionRequest_UnmarshalJSON_def ChatCompletionRequest_validate_def
      ChatMessage_validate_def allowedRoles_def ChatCompletionRequest_ToUnified_def makeMap_def
      deref_def Let_def)

text \<open>The two forms agree on a string without white space at its ends, and fail together.\<close>

lemma stop_agree_when_trimmed:
  "TrimSpace s = s \<Longrightarrow> parseStop (Some (JStr s)) = parseStop (Some (JArr [JStr s]))"
  by (simp add: parseStop_def)

lemma stop_fail_together:
  "(\<exists>e. parseStop (Some (JStr s)) = Inl e) = (\<exists>e. parseStop (Some (JArr [JStr s])) = Inl e)"
  by (simp add: parseStop_def)

section \<open>The four shapes of the Claude system field\<close>







text \<open>
  The payload is built, and its system string is the prompts joined by two line feeds: the
  request of scenario S3, with the system field \<^verbatim>\<open>[{type:"text",text:"A"},{type:"text",text:"B"}]\<close>.
\<close>

lemma system_sent_upstream:
  "map_sum id mp_System (claudeIngress lib0 (rawClaude (Some (JArr [textBlock ''A'', textBlock ''B'']))))
     = Inr [CHR ''A'', CHR 0x0A, CHR 0x0A, CHR ''B'']"
  by (simp add: claudeIngress_def rawClaude_def ClaudeMessageRequest_UnmarshalJSON_def parseClaudeSystem_def
      textBlock_def ToLower_samples extractSystemBlock_def TrimSpace_samples parseClaudeStops_def
      ClaudeMessageRequest_validate_def ClaudeMessage_validate_def ClaudeMessageRequest_ToUnified_def
      makeMap_def chatView_def deref_def buildMessagePayload_def shapedRole_def
      extractInt_def lib0_def extractFloat_def extractStringSlice_def extractMap_def Let_def)

section \<open>The Claude adapter refuses a conversation that does not start with a user message\<close>









section \<open>The dispatcher hands the provider the canonical id and a copy of the options\<close>

lemma selfKeyed_upd_self:
  assumes "selfKeyed ms" and "ms (ID m) = None"
  shows "selfKeyed (ms(ID m \<mapsto> \<lparr>model = m, provider = p\<rparr>))"
  unfolding selfKeyed_def
proof (intro allI impI)
  fix k e
  assume h: "(ms(ID m \<mapsto> \<lparr>model = m, provider = p\<rparr>)) k = Some e"
  show "(ms(ID m \<mapsto> \<lparr>model = m, provider = p\<rparr>)) (ID (model e)) = Some e"
  proof (cases "k = ID m")
    case True
    with h show ?thesis by auto
  next
    case False
    with h have mk: "ms k = Some e" by simp
    with assms(1) have "ms (ID (model e)) = Some e" by (simp add: selfKeyed_def)
    with assms(2) show ?thesis by auto
  qed
qed

lemma selfKeyed_upd_alias:
  assumes "selfKeyed ms" and "ms key = None" and "ms target = Some te"
  shows "selfKeyed (ms(key \<mapsto> te))"
  unfolding selfKeyed_def
proof (intro allI impI)
  fix k e
  assume h: "(ms(key \<mapsto> te)) k = Some e"
  have "ms k' = Some e \<Longrightarrow> (ms(key \<mapsto> te)) (ID (model e)) = Some e" for k'
  proof -
    assume "ms k' = Some e"
    with assms(1) have "ms (ID (model e)) = Some e" by (simp add: selfKeyed_def)
    with assms(2) show ?thesis by auto
  qed
  with h assms(3) show "(ms(key \<mapsto> te)) (ID (model e)) = Some e"
    by (cases "k = key") auto
qed

lemma registerModels_selfKeyed:
  "selfKeyed ms \<Longrightarrow> selfKeyed (snd (registerModels p ml ms))"
proof (induction ml arbitrary: ms)
  case Nil
  then show ?case by simp
next
  case (Cons m rest)
  show ?case
  proof (cases "ms (ID m)")
    case None
    have "selfKeyed (ms(ID m \<mapsto> \<lparr>model = m, provider = p\<rparr>))"
      using Cons.prems None by (rule selfKeyed_upd_self)
    then have "selfKeyed (snd (registerModels p rest (ms(ID m \<mapsto> \<lparr>model = m, provider = p\<rparr>))))"
      by (rule Cons.IH)
    with None show ?thesis by simp
  next
    case (Some a)
    with Cons.prems show ?thesis by simp
  qed
qed

lemma registerAliases_selfKeyed:
  "selfKeyed ms \<Longrightarrow> selfKeyed (snd (registerAliases al ms))"
proof (induction al arbitrary: ms)
  case Nil
  then show ?case by simp
next
  case (Cons a rest)
  obtain key target where a: "a = (key, target)" by (cases a)
  show ?case
  proof (cases "ms key")
    case (Some x)
    with Cons.prems a show ?thesis by simp
  next
    case None
    note fresh = this
    show ?thesis
    proof (cases "ms target")
      case None
      with fresh Cons.prems a show ?thesis by simp
    next
      case (Some te)
      have "selfKeyed (ms(key \<mapsto> te))"
        using Cons.prems fresh Some by (rule selfKeyed_upd_alias)
      then have "selfKeyed (snd (registerAliases rest (ms(key \<mapsto> te))))"
        by (rule Cons.IH)
      with fresh Some a show ?thesis by simp
    qed
  qed
qed

lemma RegisterProvider_selfKeyed:
  assumes "selfKeyed (models r)"
  shows "selfKeyed (models (snd (RegisterProvider po aliases r)))"
proof (cases po)
  case None
  with assms show ?thesis by (simp add: RegisterProvider_def)
next
  case (Some p)
  show ?thesis
  proof (cases "ListModels p")
    case (Inl e)
    with Some assms show ?thesis by (simp add: RegisterProvider_def)
  next
    case (Inr ml)
    have s1: "selfKeyed (snd (registerModels p ml (models r)))"
      using assms by (rule registerModels_selfKeyed)
    have s2: "selfKeyed (snd (registerAliases aliases (snd (registerModels p ml (models r)))))"
      using s1 by (rule registerAliases_selfKeyed)
    show ?thesis
      using Some Inr assms s1 s2
      by (auto simp: RegisterProvider_def Let_def split: prod.splits option.splits)
  qed
qed

lemma built_selfKeyed: "built r \<Longrightarrow> selfKeyed (models r)"
proof (induction rule: built.induct)
  case built_new
  show ?case by (simp add: NewRegistry_def selfKeyed_def)
next
  case (built_register r po aliases)
  then show ?case by (simp add: RegisterProvider_selfKeyed)
qed

lemma lookup_canonical:
  assumes "built r" and "LookupModel r k = Inr (modelInfo, p)"
  shows "LookupModel r (ID modelInfo) = Inr (modelInfo, p)"
proof -
  from assms(2) obtain e where e: "models r k = Some e" "model e = modelInfo" "provider e = p"
    by (auto simp: LookupModel_def split: option.splits)
  with built_selfKeyed[OF assms(1)] have "models r (ID modelInfo) = Some e"
    by (auto simp: selfKeyed_def)
  with e show ?thesis by (simp add: LookupModel_def)
qed

lemma deref_clone:
  "deref (snd (cloneOptions ref st)) (fst (cloneOptions ref st)) = deref st ref"
  by (simp add: cloneOptions_def makeMap_def deref_def)

lemma fst_clone: "fst (cloneOptions ref st) = freshCopy ref st"
  by (simp add: cloneOptions_def makeMap_def freshCopy_def)

lemma mutate_clone_keeps:
  "a < length st \<Longrightarrow> mutate (fst (cloneOptions ref st)) ops (snd (cloneOptions ref st)) ! a = st ! a"
  by (simp add: cloneOptions_def makeMap_def mutate_def nth_append)

lemma mutate_clone_length:
  "length st \<le> length (mutate (fst (cloneOptions ref st)) ops (snd (cloneOptions ref st)))"
  by (simp add: cloneOptions_def makeMap_def mutate_def)

lemma caller_map_kept:
  assumes "allocated ref st"
  shows "deref (mutate (fst (cloneOptions ref st)) ops (snd (cloneOptions ref st))) ref = deref st ref"
proof (cases ref)
  case None
  then show ?thesis by (simp add: deref_def)
next
  case (Some a)
  with assms have a: "a < length st" by (simp add: allocated_def)
  with mutate_clone_keeps[OF a, of ref ops] mutate_clone_length[of st ref ops] Some
  show ?thesis by (simp add: deref_def)
qed

lemma Router_Chat_found:
  assumes "LookupModel r (cr_Model req) = Inr (modelInfo, p)"
  shows "w_calls (snd (Router_Chat r req w))
           = w_calls w @ [ChatCall (Name p)
                            \<lparr>cr_Model = ID modelInfo, cr_Messages = cr_Messages req,
                             cr_Stream = cr_Stream req,
                             cr_Options = deref (w_store w) (cr_Options req)\<rparr>
                            (freshCopy (cr_Options req) (w_store w))]"
    and "w_store (snd (Router_Chat r req w))
           = mutate (fst (cloneOptions (cr_Options req) (w_store w)))
               (fst (p_Chat p \<lparr>cr_Model = ID modelInfo, cr_Messages = cr_Messages req,
                             cr_Stream = cr_Stream req,
                             cr_Options = deref (w_store w) (cr_Options req)\<rparr>))
               (snd (cloneOptions (cr_Options req) (w_store w)))"
  using assms deref_clone[of "cr_Options req" "w_store w"] fst_clone[of "cr_Options req" "w_store w"]
  by (auto simp: Router_Chat_def Let_def chatView_def split: prod.splits sum.splits)

lemma Router_Completion_found:
  assumes "LookupModel r (pr_Model req) = Inr (modelInfo, p)"
  shows "w_calls (snd (Router_Completion r req w))
           = w_calls w @ [CompletionCall (Name p)
                            \<lparr>pr_Model = ID modelInfo, pr_Prompt = pr_Prompt req,
                             pr_Stream = pr_Stream req, pr_MaxTokens = pr_MaxTokens req,
                             pr_Temperature = pr_Temperature req,
                             pr_Options = deref (w_store w) (pr_Options req)\<rparr>
                            (freshCopy (pr_Options req) (w_store w))]"
    and "w_store (snd (Router_Completion r req w))
           = mutate (fst (cloneOptions (pr_Options req) (w_store w)))
               (fst (p_Completion p \<lparr>pr_Model = ID modelInfo, pr_Prompt = pr_Prompt req,
                             pr_Stream = pr_Stream req, pr_MaxTokens = pr_MaxTokens req,
                             pr_Temperature = pr_Temperature req,
                             pr_Options = deref (w_store w) (pr_Options req)\<rparr>))
               (snd (cloneOptions (pr_Options req) (w_store w)))"
  using assms deref_clone[of "pr_Options req" "w_store w"] fst_clone[of "pr_Options req" "w_store w"]
  by (auto simp: Router_Completion_def Let_def completionView_def split: prod.splits sum.splits)

lemma older_maps_kept:
  "take (length st) (mutate (fst (cloneOptions ref st)) ops (snd (cloneOptions ref st))) = st"
  by (simp add: cloneOptions_def makeMap_def mutate_def)

text \<open>
  Claim C2.  Let the registry be one the code can build, let the model id of a chat request
  and of a completion request resolve in it, and let the options of the requests be nil or
  maps that exist.  Then the router calls the provider it found exactly once, with the model
  field set to the id of the descriptor, with the other fields as they were, and with an
  options map that has the entries of the caller's map but is the nil map or a map that did
  not exist before.  The id the provider receives is a key of the registry bound to that same
  descriptor and provider, so it is no alias.  Whatever stores and deletes the provider
  performs on the map it was handed, every map that existed before the call, and so the
  caller's, has the entries it had.
\<close>

theorem router_sanitises:
  assumes "built r"
    and "LookupModel r (cr_Model req) = Inr (modelInfo, p)"
    and "allocated (cr_Options req) (w_store w)"
    and "LookupModel r (pr_Model creq) = Inr (cmodelInfo, cp)"
    and "allocated (pr_Options creq) (w_store w)"
  shows
    "w_calls (snd (Router_Chat r req w))
       = w_calls w @ [ChatCall (Name p)
                        \<lparr>cr_Model = ID modelInfo, cr_Messages = cr_Messages req,
                         cr_Stream = cr_Stream req,
                         cr_Options = deref (w_store w) (cr_Options req)\<rparr>
                        (freshCopy (cr_Options req) (w_store w))]
     \<and> LookupModel r (ID modelInfo) = Inr (modelInfo, p)
     \<and> take (length (w_store w)) (w_store (snd (Router_Chat r req w))) = w_store w
     \<and> deref (w_store (snd (Router_Chat r req w))) (cr_Options req) = deref (w_store w) (cr_Options req)
     \<and> w_calls (snd (Router_Completion r creq w))
       = w_calls w @ [CompletionCall (Name cp)
                        \<lparr>pr_Model = ID cmodelInfo, pr_Prompt = pr_Prompt creq,
                         pr_Stream = pr_Stream creq, pr_MaxTokens = pr_MaxTokens creq,
                         pr_Temperature = pr_Temperature creq,
                         pr_Options = deref (w_store w) (pr_Options creq)\<rparr>
                        (freshCopy (pr_Options creq) (w_store w))]
     \<and> LookupModel r (ID cmodelInfo) = Inr (cmodelInfo, cp)
     \<and> take (length (w_store w)) (w_store (snd (Router_Completion r creq w))) = w_store w
     \<and> deref (w_store (snd (Router_Completion r creq w))) (pr_Options creq) = deref (w_store w) (pr_Options creq)"
proof -
  note c = Router_Chat_found[OF assms(2), of w]
  note d = Router_Completion_found[OF assms(4), of w]
  have c3: "take (length (w_store w)) (w_store (snd (Router_Chat r req w))) = w_store w"
    unfolding c(2) by (rule older_maps_kept)
  have c4: "deref (w_store (snd (Router_Chat r req w))) (cr_Options req) = deref (w_store w) (cr_Options req)"
    unfolding c(2) using assms(3) by (rule caller_map_kept)
  have d3: "take (length (w_store w)) (w_store (snd (Router_Completion r creq w))) = w_store w"
    unfolding d(2) by (rule older_maps_kept)
  have d4: "deref (w_store (snd (Router_Completion r creq w))) (pr_Options creq) = deref (w_store w) (pr_Options creq)"
    unfolding d(2) using assms(5) by (rule caller_map_kept)
  show ?thesis
    using c(1) d(1) c3 c4 d3 d4 lookup_canonical[OF assms(1) assms(2)] lookup_canonical[OF assms(1) assms(4)]
    by simp
qed

lemma regAlias_models:
  "models regAlias = [''m1'' \<mapsto> \<lparr>model = \<lparr>ID = ''m1'', Provider = ''scribbler'', APIStyle = ''openai''\<rparr>, provider = scribbler\<rparr>,
                      ''alias-x'' \<mapsto> \<lparr>model = \<lparr>ID = ''m1'', Provider = ''scribbler'', APIStyle = ''openai''\<rparr>, provider = scribbler\<rparr>]"
  by (simp add: regAlias_def RegisterProvider_def NewRegistry_def scribbler_def)

text \<open>
  The theorem at a registry with the model \<^verbatim>\<open>m1\<close> and the alias \<^verbatim>\<open>alias-x\<close> for it, and a
  provider that overwrites \<^verbatim>\<open>max_tokens\<close> in the options it is handed: the provider is
  called with the model \<^verbatim>\<open>m1\<close>, and the caller's map still has \<^verbatim>\<open>max_tokens\<close> 5.
\<close>

theorem router_sanitises_witness:
  "built regAlias \<and>
   LookupModel regAlias ''alias-x''
     = Inr (\<lparr>ID = ''m1'', Provider = ''scribbler'', APIStyle = ''openai''\<rparr>, scribbler) \<and>
   allocated (Some 0) (w_store world1) \<and>
   w_calls (snd (Router_Chat regAlias reqAlias world1))
     = [ChatCall ''scribbler''
          \<lparr>cr_Model = ''m1'', cr_Messages = [\<lparr>m_Role = ''user'', m_Content = ''hi'', m_Name = ''''\<rparr>],
           cr_Stream = False, cr_Options = [''max_tokens'' \<mapsto> AInt 5]\<rparr> (Some 1)] \<and>
   deref (w_store (snd (Router_Chat regAlias reqAlias world1))) (Some 0) = [''max_tokens'' \<mapsto> AInt 5] \<and>
   deref (w_store (snd (Router_Completion regAlias creqAlias world1))) (Some 0) = [''max_tokens'' \<mapsto> AInt 5]"
proof -
  have b: "built regAlias" unfolding regAlias_def by (intro built.intros)
  have l: "LookupModel regAlias (cr_Model reqAlias)
     = Inr (\<lparr>ID = ''m1'', Provider = ''scribbler'', APIStyle = ''openai''\<rparr>, scribbler)"
    by (simp add: LookupModel_def regAlias_models reqAlias_def)
  have l': "LookupModel regAlias (pr_Model creqAlias)
     = Inr (\<lparr>ID = ''m1'', Provider = ''scribbler'', APIStyle = ''openai''\<rparr>, scribbler)"
    by (simp add: LookupModel_def regAlias_models creqAlias_def)
  have a: "allocated (cr_Options reqAlias) (w_store world1)"
    by (simp add: allocated_def reqAlias_def world1_def)
  have a': "allocated (pr_Options creqAlias) (w_store world1)"
    by (simp add: allocated_def creqAlias_def world1_def)
  have n: "Name scribbler = ''scribbler''" by (simp add: scribbler_def)
  have o: "cr_Options reqAlias = Some 0" "pr_Options creqAlias = Some 0"
    "cr_Model reqAlias = ''alias-x''" "pr_Model creqAlias = ''alias-x''"
    "cr_Messages reqAlias = [\<lparr>m_Role = ''user'', m_Content = ''hi'', m_Name = ''''\<rparr>]"
    "cr_Stream reqAlias = False" "w_calls world1 = []"
    by (simp_all add: reqAlias_def creqAlias_def world1_def)
  have dv: "deref (w_store world1) (Some 0) = [''max_tokens'' \<mapsto> AInt 5]"
    by (simp add: deref_def world1_def)
  have fc: "freshCopy (Some 0) (w_store world1) = Some 1"
    by (simp add: freshCopy_def dv) (simp add: world1_def)
  from router_sanitises[OF b l a l' a'] b l a n show ?thesis
    by (simp add: o dv fc)
qed

text \<open>What the provider did to the copy it was handed.\<close>

lemma scribbled_copy:
  "w_store (snd (Router_Chat regAlias reqAlias world1))
     = [[''max_tokens'' \<mapsto> AInt 5], [''max_tokens'' \<mapsto> AInt 0]]"
  by (simp add: Router_Chat_def LookupModel_def regAlias_models reqAlias_def world1_def
      cloneOptions_def deref_def makeMap_def chatView_def scribbler_def mutate_def Let_def)

section \<open>An unknown model\<close>

lemma Router_Chat_unknown:
  "models rt (cr_Model req) = None \<Longrightarrow>
   Router_Chat rt req wd = (Inl (Wrapf (Error ErrUnknownModel @ '': '' @ cr_Model req) ErrUnknownModel), wd)"
  by (simp add: Router_Chat_def LookupModel_def)

lemma Router_Completion_unknown:
  "models rt (pr_Model req) = None \<Longrightarrow>
   Router_Completion rt req wd = (Inl (Wrapf (Error ErrUnknownModel @ '': '' @ pr_Model req) ErrUnknownModel), wd)"
  by (simp add: Router_Completion_def LookupModel_def)

lemma handleChatCompletions_unknown:
  assumes "models rt (cc_Model req) = None"
  shows "handleChatCompletions rt now (Inr req) wd w
           = (Some (RequestError (unknownModel (cc_Model req))),
              wd\<lparr>w_store := w_store wd @ [cc_Options req]\<rparr>, w)"
  using assms
  by (simp add: handleChatCompletions_def ChatCompletionRequest_ToUnified_def makeMap_def
      Router_Chat_unknown toHTTPError_def unknownModel_def)

lemma handleCompletions_unknown:
  assumes "models rt (pq_Model req) = None"
  shows "handleCompletions rt now (Inr req) wd w
           = (Some (RequestError (unknownModel (pq_Model req))),
              wd\<lparr>w_store := w_store wd @ [pq_Options req]\<rparr>, w)"
  using assms
  by (simp add: handleCompletions_def CompletionRequest_ToUnified_def makeMap_def
      Router_Completion_unknown toHTTPError_def unknownModel_def)

lemma handleClaudeMessages_unknown:
  assumes "models rt (cq_Model req) = None"
  shows "handleClaudeMessages marshal rt (Inr req) wd w
           = (Some (RequestError (unknownModel (cq_Model req))),
              wd\<lparr>w_store := w_store wd @ [cq_Options req]\<rparr>, w)"
  using assms
  by (simp add: handleClaudeMessages_def ClaudeMessageRequest_ToUnified_def makeMap_def
      Router_Chat_unknown toHTTPError_def unknownModel_def Let_def)

lemma respond_requestError:
  assumes "rw_Status w = None"
  shows "rw_Status (snd (respond (Some (RequestError e), wd, w))) = Some (Status e)"
    and "rw_Broken w = None \<Longrightarrow>
         rw_Body (snd (respond (Some (RequestError e), wd, w)))
           = rw_Body w @ [JSONDoc (errorBody (Message e) (Type e) (Code e))]"
    and "fst (respond (Some (RequestError e), wd, w)) = wd"
  using assms
  by (auto simp: respond_def openAIErrorHandler_def writeError_def JSON_def Write_def WriteHeader_def
      split: option.splits prod.splits nat.splits)

lemma Contains_unknown: "Contains (''unknown model: '' @ modelID) ''unknown model''"
  by simp

text \<open>
  Claim C9, as the code has it.  On each of the three routes, a decoded request whose model id
  is no key of the registry is answered with status 400; no provider is called; and the
  message of the error body is \<^verbatim>\<open>unknown model: \<close> followed by the id, so it contains
  \<^verbatim>\<open>unknown model\<close>, with a blank.
\<close>

theorem unknown_model_is_400:
  assumes "rw_Status w = None"
    and "models rt (cc_Model chatReq) = None"
    and "models rt (pq_Model complReq) = None"
    and "models rt (cq_Model claudeReq) = None"
  shows
    "w_calls (fst (respond (handleChatCompletions rt now (Inr chatReq) wd w))) = w_calls wd
     \<and> rw_Status (snd (respond (handleChatCompletions rt now (Inr chatReq) wd w))) = Some 400
     \<and> (rw_Broken w = None \<longrightarrow>
          rw_Body (snd (respond (handleChatCompletions rt now (Inr chatReq) wd w)))
            = rw_Body w @ [JSONDoc (errorBody (''unknown model: '' @ cc_Model chatReq) ''invalid_request_error'' '''')])
     \<and> Contains (''unknown model: '' @ cc_Model chatReq) ''unknown model''
     \<and> w_calls (fst (respond (handleCompletions rt now (Inr complReq) wd w))) = w_calls wd
     \<and> rw_Status (snd (respond (handleCompletions rt now (Inr complReq) wd w))) = Some 400
     \<and> (rw_Broken w = None \<longrightarrow>
          rw_Body (snd (respond (handleCompletions rt now (Inr complReq) wd w)))
            = rw_Body w @ [JSONDoc (errorBody (''unknown model: '' @ pq_Model complReq) ''invalid_request_error'' '''')])
     \<and> Contains (''unknown model: '' @ pq_Model complReq) ''unknown model''
     \<and> w_calls (fst (respond (handleClaudeMessages marshal rt (Inr claudeReq) wd w))) = w_calls wd
     \<and> rw_Status (snd (respond (handleClaudeMessages marshal rt (Inr claudeReq) wd w))) = Some 400
     \<and> (rw_Broken w = None \<longrightarrow>
          rw_Body (snd (respond (handleClaudeMessages marshal rt (Inr claudeReq) wd w)))
            = rw_Body w @ [JSONDoc (errorBody (''unknown model: '' @ cq_Model claudeReq) ''invalid_request_error'' '''')])
     \<and> Contains (''unknown model: '' @ cq_Model claudeReq) ''unknown model''"
  unfolding handleChatCompletions_unknown[OF assms(2)] handleCompletions_unknown[OF assms(3)]
    handleClaudeMessages_unknown[OF assms(4)]
  using respond_requestError[OF assms(1)] Contains_unknown
  by (simp add: unknownModel_def)

text \<open>
  The theorem at three requests for models the registry does not have, on a response that has
  not been written to.
\<close>

theorem unknown_model_is_400_witness:
  "rw_Status writer0 = None \<and>
   models reg0 (cc_Model reqUnknown) = None \<and>
   models reg0 (pq_Model reqCompletion) = None \<and>
   models reg0 (cq_Model reqStream) = None \<and>
   rw_Status (snd (respond (handleChatCompletions reg0 0 (Inr reqUnknown) world0 writer0))) = Some 400 \<and>
   rw_Status (snd (respond (handleCompletions reg0 0 (Inr reqCompletion) world0 writer0))) = Some 400 \<and>
   rw_Status (snd (respond (handleClaudeMessages (\<lambda>payload. ''{}'') reg0 (Inr reqStream) world0 writer0))) = Some 400 \<and>
   w_calls (fst (respond (handleClaudeMessages (\<lambda>payload. ''{}'') reg0 (Inr reqStream) world0 writer0))) = []"
proof -
  have s: "rw_Status writer0 = None" by (simp add: writer0_def)
  have a: "models reg0 (cc_Model reqUnknown) = None" by (simp add: reg0_def reqUnknown_def)
  have b: "models reg0 (pq_Model reqCompletion) = None" by (simp add: reg0_def reqCompletion_def)
  have c: "models reg0 (cq_Model reqStream) = None" by (simp add: reg0_def reqStream_def)
  have w: "w_calls world0 = []" by (simp add: world0_def)
  from unknown_model_is_400[OF s a b c, of 0 world0 "\<lambda>payload. ''{}''"] s a b c w
  show ?thesis by simp
qed

lemma TrimSpace_gptx: "TrimSpace ''gpt-x'' = ''gpt-x''"
  by (simp add: TrimSpace_def isSpace_def)

text \<open>
  Claim C9 as stated fails on the message.  A chat request for the model \<^verbatim>\<open>gpt-x\<close>, which
  the registry does not have, passes ingress and is answered with status 400 and the message
  \<^verbatim>\<open>unknown model: gpt-x\<close>, which does not contain \<^verbatim>\<open>unknown_model\<close>.
\<close>

theorem unknown_model_message:
  "ChatCompletionRequest_UnmarshalJSON (Inr (rawChat\<lparr>al_Model := ''gpt-x''\<rparr>)) = Inr reqUnknown \<and>
   models reg0 ''gpt-x'' = None \<and>
   respond (handleChatCompletions reg0 0 (Inr reqUnknown) world0 writer0)
     = (\<lparr>w_store = [[''max_tokens'' \<mapsto> AInt 5]], w_calls = []\<rparr>,
        writer0\<lparr>rw_Status := Some 400,
                rw_Body := [JSONDoc (errorBody ''unknown model: gpt-x'' ''invalid_request_error'' '''')]\<rparr>) \<and>
   \<not> Contains ''unknown model: gpt-x'' ''unknown_model''"
proof -
  have p: "ChatCompletionRequest_UnmarshalJSON (Inr (rawChat\<lparr>al_Model := ''gpt-x''\<rparr>)) = Inr reqUnknown"
    by (simp add: ChatCompletionRequest_UnmarshalJSON_def rawChat_def reqUnknown_def parseStop_def
        TrimSpace_gptx TrimSpace_samples ChatCompletionRequest_validate_def ChatMessage_validate_def
        allowedRoles_def)
  have m: "models reg0 ''gpt-x'' = None" by (simp add: reg0_def)
  have h: "handleChatCompletions reg0 0 (Inr reqUnknown) world0 writer0
      = (Some (RequestError \<lparr>Status = 400, Message = ''unknown model: gpt-x'',
                               Type = ''invalid_request_error'', Code = ''''\<rparr>),
         \<lparr>w_store = [[''max_tokens'' \<mapsto> AInt 5]], w_calls = []\<rparr>, writer0)"
    by (simp add: handleChatCompletions_def ChatCompletionRequest_ToUnified_def makeMap_def
        Router_Chat_def LookupModel_def reg0_def reqUnknown_def world0_def toHTTPError_def)
  have r: "respond (handleChatCompletions reg0 0 (Inr reqUnknown) world0 writer0)
     = (\<lparr>w_store = [[''max_tokens'' \<mapsto> AInt 5]], w_calls = []\<rparr>,
        writer0\<lparr>rw_Status := Some 400,
                rw_Body := [JSONDoc (errorBody ''unknown model: gpt-x'' ''invalid_request_error'' '''')]\<rparr>)"
    unfolding h
    by (simp add: respond_def openAIErrorHandler_def writeError_def JSON_def Write_def WriteHeader_def
        writer0_def)
  have c: "\<not> Contains ''unknown model: gpt-x'' ''unknown_model''" by simp
  from p m r c show ?thesis by blast
qed

section \<open>A body over the limit\<close>








section \<open>The synthesised Claude stream\<close>








lemma Router_Chat_calls:
  "w_calls (snd (Router_Chat rt req wd)) = w_calls wd \<or>
   (\<exists>name seen opts. w_calls (snd (Router_Chat rt req wd)) = w_calls wd @ [ChatCall name seen opts]
        \<and> cr_Stream seen = cr_Stream req)"
  by (auto simp: Router_Chat_def Let_def chatView_def split: sum.splits prod.splits)


text \<open>
  In every run of the handler, with or without a stream asked for and whatever the outcome,
  the calls it adds are chat calls with the stream flag off.
\<close>

lemma claude_dispatch_stream_off:
  "\<exists>calls. w_calls (fst (snd (handleClaudeMessages marshal rt decoded wd w))) = w_calls wd @ calls
     \<and> list_all (\<lambda>c. case c of ChatCall name seen opts \<Rightarrow> \<not> cr_Stream seen
                          | CompletionCall name seen opts \<Rightarrow> False) calls"
proof (cases decoded)
  case (Inl e)
  then show ?thesis by (simp add: handleClaudeMessages_def)
next
  case (Inr req)
  obtain u0 st1 where tu: "ClaudeMessageRequest_ToUnified req (w_store wd) = (u0, st1)" by force
  obtain result wd2 where rc: "Router_Chat rt (u0\<lparr>cr_Stream := False\<rparr>) (wd\<lparr>w_store := st1\<rparr>) = (result, wd2)"
    by force
  have k: "w_calls (fst (snd (handleClaudeMessages marshal rt decoded wd w))) = w_calls wd2"
    using Inr tu rc
    by (auto simp: handleClaudeMessages_def Let_def split: sum.splits prod.splits option.splits)
  from Router_Chat_calls[of rt "u0\<lparr>cr_Stream := False\<rparr>" "wd\<lparr>w_store := st1\<rparr>"] rc
  have "w_calls wd2 = w_calls wd \<or>
        (\<exists>name seen opts. w_calls wd2 = w_calls wd @ [ChatCall name seen opts] \<and> \<not> cr_Stream seen)"
    by simp
  then show ?thesis
  proof
    assume "w_calls wd2 = w_calls wd"
    with k show ?thesis by simp
  next
    assume "\<exists>name seen opts. w_calls wd2 = w_calls wd @ [ChatCall name seen opts] \<and> \<not> cr_Stream seen"
    then obtain name seen opts where
      c: "w_calls wd2 = w_calls wd @ [ChatCall name seen opts]" and s: "\<not> cr_Stream seen" by blast
    show ?thesis
      by (rule exI[of _ "[ChatCall name seen opts]"]) (simp add: k c s)
  qed
qed





end
